theory Spec2Isabelle
  imports Complex_Main "HOL-Library.AList" "HOL-Library.Code_Target_Nat"
begin

section \<open>Strings and the keyword patterns of the domain classifier\<close>

text \<open>
  For the classifier a JavaScript string is the list of its UTF-16 code units, as natural
  numbers, so that every text and title is covered. \<open>String.prototype.toLowerCase\<close> is a
  built-in of the language whose case tables are no part of the repository; it is a
  parameter of the classifier, and what is proved holds whatever that function is. The
  keywords of the source are ASCII literals; \<open>units\<close> gives the code units of a literal.
\<close>

type_synonym jsstring = "nat list"

definition units :: "string \<Rightarrow> jsstring" where
  "units s = map of_char s"

text \<open>
  The case mapping of strings whose code units are all below 256, where \<open>toLowerCase\<close>
  works unit by unit: \<open>A\<close>..\<open>Z\<close> and the upper-case letters of Latin-1 go to their
  lower-case forms. It serves to evaluate the classifier at examples; it leaves the units
  from 256 on alone, and the examples have none.
\<close>

definition lowerLatin1 :: "jsstring \<Rightarrow> jsstring" where
  "lowerLatin1 s =
     map (\<lambda>n. if (65 \<le> n \<and> n \<le> 90) \<or> (192 \<le> n \<and> n \<le> 214) \<or> (216 \<le> n \<and> n \<le> 222)
               then n + 32 else n) s"

text \<open>
  The regular expressions of \<open>detectContractDomain\<close> all have the form
  \<^verbatim>\<open>/\b(k1|k2|...)\b/\<close> with literal alternatives and no flags. \<^verbatim>\<open>\w\<close> is
  \<^verbatim>\<open>[A-Za-z0-9_]\<close>; \<^verbatim>\<open>\b\<close> holds at a position when exactly one of the
  characters before and after it is a word character (a missing character is not one).
  \<open>text.match(re)\<close> is non-null when some position has a boundary, then one of the
  alternatives, then a boundary again.
\<close>

definition isWordChar :: "nat \<Rightarrow> bool" where
  "isWordChar n =
     ((48 \<le> n \<and> n \<le> 57) \<or> (65 \<le> n \<and> n \<le> 90) \<or> n = 95 \<or> (97 \<le> n \<and> n \<le> 122))"

definition wordAt :: "jsstring \<Rightarrow> nat \<Rightarrow> bool" where
  "wordAt s i = (i < length s \<and> isWordChar (s ! i))"

definition boundaryAt :: "jsstring \<Rightarrow> nat \<Rightarrow> bool" where
  "boundaryAt s p = ((0 < p \<and> wordAt s (p - 1)) \<noteq> wordAt s p)"

definition matchAt :: "string list \<Rightarrow> jsstring \<Rightarrow> nat \<Rightarrow> bool" where
  "matchAt alts s p =
     (boundaryAt s p \<and>
      list_ex (\<lambda>k. take (length k) (drop p s) = units k \<and> boundaryAt s (p + length k)) alts)"

definition regexMatch :: "string list \<Rightarrow> jsstring \<Rightarrow> bool" where
  "regexMatch alts s = list_ex (matchAt alts s) [0..<Suc (length s)]"

definition financeTerms :: "string list" where
  "financeTerms = [''loan'', ''credit'', ''mortgage'', ''finance'', ''bank'', ''investment'',
     ''securities'', ''trading'', ''hedge fund'', ''private equity'', ''derivatives'', ''swap'',
     ''bond'', ''debt'', ''financing agreement'']"

definition realEstateTerms :: "string list" where
  "realEstateTerms = [''real estate'', ''property'', ''lease'', ''rental'', ''landlord'',
     ''tenant'', ''purchase agreement'', ''sale agreement'', ''property management'',
     ''commercial lease'', ''residential'']"

definition insuranceTerms :: "string list" where
  "insuranceTerms = [''insurance'', ''policy'', ''coverage'', ''premium'', ''claim'',
     ''liability insurance'', ''health insurance'', ''life insurance'', ''underwriting'']"

definition employmentTerms :: "string list" where
  "employmentTerms = [''employment'', ''employee'', ''employer'', ''job'', ''salary'',
     ''benefits'', ''non-compete'', ''non-disclosure'', ''termination'', ''hiring'', ''hr'',
     ''human resources'']"

definition technologyTerms :: "string list" where
  "technologyTerms = [''software'', ''technology'', ''saas'', ''api'', ''development'',
     ''programming'', ''data'', ''cloud'', ''hosting'', ''license'', ''intellectual property'',
     ''code'']"

definition healthcareTerms :: "string list" where
  "healthcareTerms = [''healthcare'', ''medical'', ''patient'', ''doctor'', ''hospital'',
     ''pharmaceutical'', ''clinical'', ''hipaa'', ''medical device'', ''treatment'']"

definition constructionTerms :: "string list" where
  "constructionTerms = [''construction'', ''building'', ''contractor'', ''engineering'',
     ''architect'', ''project'', ''materials'', ''labor'', ''subcontractor'']"

definition vendorTerms :: "string list" where
  "vendorTerms = [''vendor'', ''supplier'', ''procurement'', ''purchase order'', ''supply'',
     ''delivery'', ''goods'', ''materials'', ''distribution'']"

definition professionalTerms :: "string list" where
  "professionalTerms = [''consulting'', ''professional services'', ''advisory'',
     ''legal services'', ''accounting'', ''audit'', ''tax'']"

section \<open>The domain classifier\<close>

definition detectContractDomain :: "(jsstring \<Rightarrow> jsstring) \<Rightarrow> jsstring \<Rightarrow> jsstring \<Rightarrow> string" where
  "detectContractDomain toLowerCase contractText title =
     (let text = toLowerCase (contractText @ units '' '' @ title)
      in if regexMatch financeTerms text then ''finance''
         else if regexMatch realEstateTerms text then ''real_estate''
         else if regexMatch insuranceTerms text then ''insurance''
         else if regexMatch employmentTerms text then ''employment''
         else if regexMatch technologyTerms text then ''technology''
         else if regexMatch healthcareTerms text then ''healthcare''
         else if regexMatch constructionTerms text then ''construction''
         else if regexMatch vendorTerms text then ''vendor''
         else if regexMatch professionalTerms text then ''professional''
         else ''general'')"

text \<open>
  The classifier as the specification words it. A keyword group matches a text by a
  word-boundary match: a keyword of the group stands at some position, and at each of its
  two ends exactly one of the neighbouring characters is a letter of \<open>A\<close>..\<open>Z\<close> or
  \<open>a\<close>..\<open>z\<close>, a digit or the underscore, the ends of the text counting as characters
  that are not. The groups are tried in the priority order; the first group that matches
  gives the domain, and \<open>general\<close> is the domain when none matches. These definitions
  are compared with the chain of conditionals and the regular expressions above.
\<close>

definition wordCode :: "nat \<Rightarrow> bool" where
  "wordCode n = (n \<in> {48..57} \<union> {65..90} \<union> {95} \<union> {97..122})"

definition wordEdge :: "jsstring \<Rightarrow> nat \<Rightarrow> bool" where
  "wordEdge s q =
     ((0 < q \<and> q \<le> length s \<and> wordCode (s ! (q - 1))) \<noteq> (q < length s \<and> wordCode (s ! q)))"

definition wholeWordIn :: "string list \<Rightarrow> jsstring \<Rightarrow> bool" where
  "wholeWordIn alts s =
     (\<exists>p \<le> length s. \<exists>k \<in> set alts.
         take (length k) (drop p s) = units k \<and> wordEdge s p \<and> wordEdge s (p + length k))"

definition priorityOrder :: "(string \<times> string list) list" where
  "priorityOrder =
     [(''finance'', financeTerms), (''real_estate'', realEstateTerms),
      (''insurance'', insuranceTerms), (''employment'', employmentTerms),
      (''technology'', technologyTerms), (''healthcare'', healthcareTerms),
      (''construction'', constructionTerms), (''vendor'', vendorTerms),
      (''professional'', professionalTerms)]"

definition firstMatch :: "jsstring \<Rightarrow> string" where
  "firstMatch text =
     (case find (\<lambda>g. wholeWordIn (snd g) text) priorityOrder of
        Some g \<Rightarrow> fst g
      | None \<Rightarrow> ''general'')"

section \<open>The domain configuration table\<close>

record RiskThresholds =
  low :: int
  medium :: int
  high :: int

record DomainConfig =
  baseRisk :: string
  penaltyMultiplier :: rat
  riskThresholds :: RiskThresholds
  description :: string

text \<open>
  The object literal \<open>domainConfig\<close> of \<open>analyzeContract\<close>, in the order of the source.
  The decimal literals are the rationals they denote.
\<close>

definition domainConfig :: "(string \<times> DomainConfig) list" where
  "domainConfig =
     [(''finance'', \<lparr>baseRisk = ''medium-high'', penaltyMultiplier = 12 / 10,
         riskThresholds = \<lparr>low = 30, medium = 60, high = 80\<rparr>,
         description = ''Finance contracts require careful attention to regulatory compliance and financial exposure, while recognizing standard industry practices.''\<rparr>),
      (''real_estate'', \<lparr>baseRisk = ''medium-high'', penaltyMultiplier = 11 / 10,
         riskThresholds = \<lparr>low = 30, medium = 60, high = 80\<rparr>,
         description = ''Real estate contracts involve significant assets but often follow established industry standards and practices.''\<rparr>),
      (''insurance'', \<lparr>baseRisk = ''medium-high'', penaltyMultiplier = 11 / 10,
         riskThresholds = \<lparr>low = 30, medium = 60, high = 80\<rparr>,
         description = ''Insurance contracts involve risk transfer mechanisms that are often standardized within the industry.''\<rparr>),
      (''healthcare'', \<lparr>baseRisk = ''medium'', penaltyMultiplier = 1,
         riskThresholds = \<lparr>low = 25, medium = 55, high = 75\<rparr>,
         description = ''Healthcare contracts balance compliance requirements with practical operational needs.''\<rparr>),
      (''employment'', \<lparr>baseRisk = ''low-medium'', penaltyMultiplier = 8 / 10,
         riskThresholds = \<lparr>low = 20, medium = 50, high = 70\<rparr>,
         description = ''Employment contracts should be evaluated considering typical employment law protections and industry standards.''\<rparr>),
      (''technology'', \<lparr>baseRisk = ''medium'', penaltyMultiplier = 9 / 10,
         riskThresholds = \<lparr>low = 25, medium = 55, high = 75\<rparr>,
         description = ''Technology contracts should balance innovation needs with reasonable IP and service protections.''\<rparr>),
      (''construction'', \<lparr>baseRisk = ''medium'', penaltyMultiplier = 1,
         riskThresholds = \<lparr>low = 25, medium = 55, high = 75\<rparr>,
         description = ''Construction contracts involve project complexities but often follow established industry practices.''\<rparr>),
      (''vendor'', \<lparr>baseRisk = ''low-medium'', penaltyMultiplier = 7 / 10,
         riskThresholds = \<lparr>low = 20, medium = 45, high = 65\<rparr>,
         description = ''Vendor contracts are typically straightforward business arrangements with standard commercial terms.''\<rparr>),
      (''professional'', \<lparr>baseRisk = ''low-medium'', penaltyMultiplier = 8 / 10,
         riskThresholds = \<lparr>low = 20, medium = 50, high = 70\<rparr>,
         description = ''Professional service contracts are generally lower-risk with established service delivery patterns.''\<rparr>),
      (''general'', \<lparr>baseRisk = ''medium'', penaltyMultiplier = 9 / 10,
         riskThresholds = \<lparr>low = 25, medium = 50, high = 70\<rparr>,
         description = ''General business contracts evaluated with balanced risk assessment considering common business practices.''\<rparr>)]"

text \<open>
  \<open>const config = domainConfig[domain]\<close>: the entry under the key, or nothing
  (\<open>undefined\<close>) when the table has no such key.
\<close>

definition config :: "string \<Rightarrow> DomainConfig option" where
  "config domain = map_of domainConfig domain"

text \<open>The ten domain tags of the data model.\<close>

definition domainTags :: "string list" where
  "domainTags = [''finance'', ''real_estate'', ''insurance'', ''healthcare'', ''employment'',
     ''technology'', ''construction'', ''vendor'', ''professional'', ''general'']"

definition thresholdsOrdered :: "RiskThresholds \<Rightarrow> bool" where
  "thresholdsOrdered t = (0 \<le> low t \<and> low t < medium t \<and> medium t < high t \<and> high t \<le> 100)"

section \<open>JavaScript values\<close>

text \<open>
  A number is a rational or one of the three special values; only comparisons are taken
  of numbers, so no rounding is involved. The sign of zero is not modelled. A \<open>Date\<close>
  is its time value in milliseconds, \<open>None\<close> for an invalid date. An object is the list
  of its properties in order, each key once. The place JavaScript gives to keys that are
  array indices is not modelled; no key of the schemas is one.
\<close>

datatype jsnum = Fin rat | PosInf | NegInf | NaN

fun numLess :: "jsnum \<Rightarrow> jsnum \<Rightarrow> bool" where
  "numLess NaN _ = False"
| "numLess _ NaN = False"
| "numLess (Fin a) (Fin b) = (a < b)"
| "numLess _ NegInf = False"
| "numLess NegInf _ = True"
| "numLess PosInf _ = False"
| "numLess _ PosInf = True"

datatype jsval =
    VUndefined
  | VNull
  | VBool bool
  | VNum jsnum
  | VStr string
  | VDate "int option"
  | VArr "jsval list"
  | VObj "(string \<times> jsval) list"

text \<open>\<open>obj[key]\<close> on the properties of an object: \<open>undefined\<close> for a missing key.\<close>

definition propOf :: "(string \<times> jsval) list \<Rightarrow> string \<Rightarrow> jsval" where
  "propOf fs k = (case map_of fs k of Some v \<Rightarrow> v | None \<Rightarrow> VUndefined)"

text \<open>
  The same on any value, used to state properties: a value that is not an object has no
  properties.
\<close>

fun getProp :: "jsval \<Rightarrow> string \<Rightarrow> jsval" where
  "getProp (VObj fs) k = propOf fs k"
| "getProp _ k = VUndefined"

fun elems :: "jsval \<Rightarrow> jsval list" where
  "elems (VArr xs) = xs"
| "elems _ = []"

fun ownProps :: "jsval \<Rightarrow> (string \<times> jsval) list" where
  "ownProps (VObj fs) = fs"
| "ownProps _ = []"

text \<open>
  Object spread \<open>{...tgt, ...src}\<close>: each property of \<open>src\<close> in order overwrites the
  property of the same key in place, or is added at the end.
\<close>

definition spread :: "(string \<times> jsval) list \<Rightarrow> (string \<times> jsval) list \<Rightarrow> (string \<times> jsval) list" where
  "spread src tgt = fold (\<lambda>kv. AList.update (fst kv) (snd kv)) src tgt"

section \<open>The schemas of the shared module\<close>

text \<open>
  The schema combinators the module uses: \<open>z.string()\<close>, \<open>z.number()\<close> with its
  \<open>.min\<close> and \<open>.max\<close> checks, \<open>z.enum\<close>, \<open>z.date()\<close>, \<open>z.array\<close> and
  \<open>z.object\<close>. Parsing collects the issues of every field, each with the path of the
  field and its code, and builds the output value. A number schema refuses \<open>NaN\<close>; a
  date schema refuses an invalid date; an object schema parses the keys of its shape
  and drops every other key of the input; a missing key is parsed as \<open>undefined\<close>.
\<close>

datatype check = ZMin rat | ZMax rat

datatype schema =
    ZString
  | ZNumber "check list"
  | ZEnum "string list"
  | ZDate
  | ZArray schema
  | ZObject "(string \<times> schema) list"

datatype seg = Key string | Idx nat

datatype issueCode = invalid_type | too_small | too_big | invalid_enum_value | invalid_date

type_synonym issue = "seg list \<times> issueCode"

fun checkIssue :: "seg list \<Rightarrow> jsnum \<Rightarrow> check \<Rightarrow> issue list" where
  "checkIssue p n (ZMin lo) = (if numLess n (Fin lo) then [(p, too_small)] else [])"
| "checkIssue p n (ZMax hi) = (if numLess (Fin hi) n then [(p, too_big)] else [])"

fun parseZ :: "schema \<Rightarrow> seg list \<Rightarrow> jsval \<Rightarrow> issue list \<times> jsval" where
  "parseZ ZString p v =
     (case v of VStr s \<Rightarrow> ([], v) | _ \<Rightarrow> ([(p, invalid_type)], VUndefined))"
| "parseZ (ZNumber checks) p v =
     (case v of
        VNum n \<Rightarrow> (if n = NaN then ([(p, invalid_type)], VUndefined)
                    else (concat (map (checkIssue p n) checks), v))
      | _ \<Rightarrow> ([(p, invalid_type)], VUndefined))"
| "parseZ (ZEnum vals) p v =
     (case v of
        VStr s \<Rightarrow> (if s \<in> set vals then ([], v) else ([(p, invalid_enum_value)], VUndefined))
      | _ \<Rightarrow> ([(p, invalid_type)], VUndefined))"
| "parseZ ZDate p v =
     (case v of
        VDate None \<Rightarrow> ([(p, invalid_date)], VUndefined)
      | VDate (Some t) \<Rightarrow> ([], VDate (Some t))
      | _ \<Rightarrow> ([(p, invalid_type)], VUndefined))"
| "parseZ (ZArray s) p v =
     (case v of
        VArr xs \<Rightarrow>
          (let rs = map (\<lambda>ix. parseZ s (p @ [Idx (fst ix)]) (snd ix)) (enumerate 0 xs)
           in (concat (map fst rs), VArr (map snd rs)))
      | _ \<Rightarrow> ([(p, invalid_type)], VUndefined))"
| "parseZ (ZObject shape) p v =
     (case v of
        VObj fs \<Rightarrow>
          (let rs = map (\<lambda>ks. (fst ks, parseZ (snd ks) (p @ [Key (fst ks)]) (propOf fs (fst ks)))) shape
           in (concat (map (\<lambda>r. fst (snd r)) rs), VObj (map (\<lambda>r. (fst r, snd (snd r))) rs)))
      | _ \<Rightarrow> ([(p, invalid_type)], VUndefined))"

text \<open>\<open>schema.safeParse(v)\<close>: the issues, or the output when there are none.\<close>

definition safeParse :: "schema \<Rightarrow> jsval \<Rightarrow> issue list + jsval" where
  "safeParse s v = (case parseZ s [] v of ([], out) \<Rightarrow> Inr out | (is, out) \<Rightarrow> Inl is)"

text \<open>A shape written as an object literal has each key once.\<close>

fun wfSchema :: "schema \<Rightarrow> bool" where
  "wfSchema (ZArray s) = wfSchema s"
| "wfSchema (ZObject shape) = (distinct (map fst shape) \<and> list_all (\<lambda>ks. wfSchema (snd ks)) shape)"
| "wfSchema _ = True"

definition riskLevels :: "string list" where
  "riskLevels = [''low'', ''medium'', ''high'']"

definition clauseSchema :: schema where
  "clauseSchema = ZObject
     [(''id'', ZString),
      (''title'', ZString),
      (''content'', ZString),
      (''riskLevel'', ZEnum riskLevels),
      (''riskScore'', ZNumber [ZMin 0, ZMax 100]),
      (''explanation'', ZString),
      (''suggestions'', ZArray ZString),
      (''startIndex'', ZNumber []),
      (''endIndex'', ZNumber [])]"

definition contractAnalysisSchema :: schema where
  "contractAnalysisSchema = ZObject
     [(''id'', ZString),
      (''title'', ZString),
      (''content'', ZString),
      (''riskScore'', ZNumber [ZMin 0, ZMax 100]),
      (''clauses'', ZArray clauseSchema),
      (''keyIssues'', ZArray (ZObject
         [(''id'', ZString),
          (''title'', ZString),
          (''description'', ZString),
          (''riskLevel'', ZEnum riskLevels),
          (''clause'', ZString),
          (''suggestion'', ZString)])),
      (''missingProtections'', ZArray (ZObject
         [(''id'', ZString),
          (''title'', ZString),
          (''description'', ZString),
          (''importance'', ZEnum [''critical'', ''important'', ''recommended'']),
          (''sampleClause'', ZString)])),
      (''riskBreakdown'', ZObject
         [(''payment'', ZNumber [ZMin 0, ZMax 100]),
          (''liability'', ZNumber [ZMin 0, ZMax 100]),
          (''termination'', ZNumber [ZMin 0, ZMax 100]),
          (''confidentiality'', ZNumber [ZMin 0, ZMax 100]),
          (''intellectual_property'', ZNumber [ZMin 0, ZMax 100])]),
      (''plainLanguageSummary'', ZString),
      (''confidence'', ZNumber [ZMin 0, ZMax 1]),
      (''analysisDate'', ZDate)]"

section \<open>The record that analyzeContract returns\<close>

text \<open>
  The object literal
  \<^verbatim>\<open>{ id: crypto.randomUUID(), title, content: contractText, ...analysisData, analysisDate: new Date() }\<close>.
  The fresh identifier and the current time are inputs of the model; \<open>analysisData\<close>, the
  parsed response typed \<open>GeminiAnalysisResponse\<close>, is given by its properties. Properties
  of the response come after \<open>id\<close>, \<open>title\<close> and \<open>content\<close> and so replace them;
  \<open>analysisDate\<close> comes last and replaces a property of that name.
\<close>

definition analysisRecord :: "string \<Rightarrow> int \<Rightarrow> string \<Rightarrow> string \<Rightarrow> (string \<times> jsval) list \<Rightarrow> jsval" where
  "analysisRecord uuid now title contractText analysisData =
     VObj (AList.update ''analysisDate'' (VDate (Some now))
            (spread analysisData
               [(''id'', VStr uuid), (''title'', VStr title), (''content'', VStr contractText)]))"

section \<open>JSON texts\<close>

text \<open>
  A JSON text is modelled by the document it denotes. \<open>JSON.stringify\<close> writes a date as
  the string \<open>toISOString\<close> gives (a parameter of the model), an invalid date and a
  non-finite number as \<open>null\<close>, an \<open>undefined\<close> array element as \<open>null\<close>, and leaves an
  \<open>undefined\<close> property out; of \<open>undefined\<close> itself it gives no text. \<open>JSON.parse\<close>
  builds strings, numbers, booleans, \<open>null\<close>, arrays and objects, nothing else.
\<close>

datatype json =
    JNull
  | JBool bool
  | JNumber rat
  | JString string
  | JArray "json list"
  | JObject "(string \<times> json) list"

fun JSON_parse :: "json \<Rightarrow> jsval" where
  "JSON_parse JNull = VNull"
| "JSON_parse (JBool b) = VBool b"
| "JSON_parse (JNumber q) = VNum (Fin q)"
| "JSON_parse (JString s) = VStr s"
| "JSON_parse (JArray js) = VArr (map JSON_parse js)"
| "JSON_parse (JObject ms) = VObj (spread (map (\<lambda>m. (fst m, JSON_parse (snd m))) ms) [])"

fun JSON_stringify :: "(int \<Rightarrow> string) \<Rightarrow> jsval \<Rightarrow> json option" where
  "JSON_stringify toISOString VUndefined = None"
| "JSON_stringify toISOString VNull = Some JNull"
| "JSON_stringify toISOString (VBool b) = Some (JBool b)"
| "JSON_stringify toISOString (VNum n) = Some (case n of Fin q \<Rightarrow> JNumber q | _ \<Rightarrow> JNull)"
| "JSON_stringify toISOString (VStr s) = Some (JString s)"
| "JSON_stringify toISOString (VDate d) =
     Some (case d of Some t \<Rightarrow> JString (toISOString t) | None \<Rightarrow> JNull)"
| "JSON_stringify toISOString (VArr xs) =
     Some (JArray (map (\<lambda>x. case JSON_stringify toISOString x of Some j \<Rightarrow> j | None \<Rightarrow> JNull) xs))"
| "JSON_stringify toISOString (VObj fs) =
     Some (JObject (concat (map (\<lambda>f. case JSON_stringify toISOString (snd f) of
                                        Some j \<Rightarrow> [(fst f, j)] | None \<Rightarrow> []) fs)))"

section \<open>The type ContractAnalysis\<close>

text \<open>
  The types inferred from the schemas, with the fields in the order of the schemas, and
  the objects they stand for.
\<close>

datatype RiskLevel = RiskLow | RiskMedium | RiskHigh

datatype Importance = Critical | Important | Recommended

fun riskLevelJs :: "RiskLevel \<Rightarrow> jsval" where
  "riskLevelJs RiskLow = VStr ''low''"
| "riskLevelJs RiskMedium = VStr ''medium''"
| "riskLevelJs RiskHigh = VStr ''high''"

fun importanceJs :: "Importance \<Rightarrow> jsval" where
  "importanceJs Critical = VStr ''critical''"
| "importanceJs Important = VStr ''important''"
| "importanceJs Recommended = VStr ''recommended''"

datatype Clause = Clause string string string RiskLevel jsnum string "string list" jsnum jsnum

datatype KeyIssue = KeyIssue string string string RiskLevel string string

datatype MissingProtection = MissingProtection string string string Importance string

datatype RiskBreakdown = RiskBreakdown jsnum jsnum jsnum jsnum jsnum

datatype ContractAnalysis =
  ContractAnalysis string string string jsnum "Clause list" "KeyIssue list"
    "MissingProtection list" RiskBreakdown string jsnum "int option"

fun clauseJs :: "Clause \<Rightarrow> jsval" where
  "clauseJs (Clause cid title content riskLevel riskScore explanation suggestions startIndex endIndex) =
     VObj [(''id'', VStr cid), (''title'', VStr title), (''content'', VStr content),
           (''riskLevel'', riskLevelJs riskLevel), (''riskScore'', VNum riskScore),
           (''explanation'', VStr explanation), (''suggestions'', VArr (map VStr suggestions)),
           (''startIndex'', VNum startIndex), (''endIndex'', VNum endIndex)]"

fun keyIssueJs :: "KeyIssue \<Rightarrow> jsval" where
  "keyIssueJs (KeyIssue kid title descr riskLevel clause suggestion) =
     VObj [(''id'', VStr kid), (''title'', VStr title), (''description'', VStr descr),
           (''riskLevel'', riskLevelJs riskLevel), (''clause'', VStr clause),
           (''suggestion'', VStr suggestion)]"

fun missingProtectionJs :: "MissingProtection \<Rightarrow> jsval" where
  "missingProtectionJs (MissingProtection mid title descr importance sampleClause) =
     VObj [(''id'', VStr mid), (''title'', VStr title), (''description'', VStr descr),
           (''importance'', importanceJs importance), (''sampleClause'', VStr sampleClause)]"

fun riskBreakdownJs :: "RiskBreakdown \<Rightarrow> jsval" where
  "riskBreakdownJs (RiskBreakdown payment liability termination confidentiality intellectual_property) =
     VObj [(''payment'', VNum payment), (''liability'', VNum liability),
           (''termination'', VNum termination), (''confidentiality'', VNum confidentiality),
           (''intellectual_property'', VNum intellectual_property)]"

fun analysisJs :: "ContractAnalysis \<Rightarrow> jsval" where
  "analysisJs (ContractAnalysis aid title content riskScore clauses keyIssues missingProtections
                 riskBreakdown plainLanguageSummary confidence analysisDate) =
     VObj [(''id'', VStr aid), (''title'', VStr title), (''content'', VStr content),
           (''riskScore'', VNum riskScore), (''clauses'', VArr (map clauseJs clauses)),
           (''keyIssues'', VArr (map keyIssueJs keyIssues)),
           (''missingProtections'', VArr (map missingProtectionJs missingProtections)),
           (''riskBreakdown'', riskBreakdownJs riskBreakdown),
           (''plainLanguageSummary'', VStr plainLanguageSummary),
           (''confidence'', VNum confidence), (''analysisDate'', VDate analysisDate)]"

text \<open>\<open>analysis.id\<close>\<close>

fun analysis_id :: "ContractAnalysis \<Rightarrow> string" where
  "analysis_id (ContractAnalysis aid title content riskScore clauses keyIssues missingProtections
                 riskBreakdown plainLanguageSummary confidence analysisDate) = aid"

section \<open>Browser storage\<close>

text \<open>
  \<open>localStorage\<close> maps keys to texts. A text is a JSON text, given by its document, or
  some other text, on which \<open>JSON.parse\<close> throws. \<open>setItem\<close> of \<open>undefined\<close> stores the
  text \<open>undefined\<close>. \<open>text || d\<close> is \<open>d\<close> for a missing item and for the empty text.
\<close>

datatype item = JsonText json | OtherText string

datatype jsError = SyntaxError | TypeError

type_synonym localStorage = "string \<Rightarrow> item option"

definition getItem :: "localStorage \<Rightarrow> string \<Rightarrow> item option" where
  "getItem ls key = ls key"

definition setItem :: "string \<Rightarrow> item \<Rightarrow> localStorage \<Rightarrow> localStorage" where
  "setItem key text ls = ls(key \<mapsto> text)"

definition stringifyText :: "(int \<Rightarrow> string) \<Rightarrow> jsval \<Rightarrow> item" where
  "stringifyText toISOString v =
     (case JSON_stringify toISOString v of Some j \<Rightarrow> JsonText j | None \<Rightarrow> OtherText ''undefined'')"

fun parseText :: "item \<Rightarrow> jsError + jsval" where
  "parseText (JsonText j) = Inr (JSON_parse j)"
| "parseText (OtherText s) = Inl SyntaxError"

fun orElse :: "item option \<Rightarrow> item \<Rightarrow> item" where
  "orElse None d = d"
| "orElse (Some (OtherText [])) d = d"
| "orElse (Some t) d = t"

text \<open>
  \<open>storeAnalysis\<close> returns the storage it leaves and the error it throws, if any: calling
  \<open>filter\<close> on a value that is not an array is a \<open>TypeError\<close>, raised after the analysis
  has been written. A stored identifier is removed by \<open>!==\<close>, which holds of everything
  but the equal string.
\<close>

definition storeAnalysis ::
  "(int \<Rightarrow> string) \<Rightarrow> ContractAnalysis \<Rightarrow> localStorage \<Rightarrow> jsError option \<times> localStorage" where
  "storeAnalysis toISOString analysis ls =
     (let ls1 = setItem (''analysis-'' @ analysis_id analysis)
                  (stringifyText toISOString (analysisJs analysis)) ls
      in case parseText (orElse (getItem ls1 ''analysis-ids'') (JsonText (JArray []))) of
           Inl e \<Rightarrow> (Some e, ls1)
         | Inr (VArr existingIds) \<Rightarrow>
             (let updatedIds = VStr (analysis_id analysis)
                     # filter (\<lambda>i. i \<noteq> VStr (analysis_id analysis)) existingIds
              in (None, setItem ''analysis-ids''
                          (stringifyText toISOString (VArr (take 10 updatedIds))) ls1))
         | Inr _ \<Rightarrow> (Some TypeError, ls1))"

text \<open>The query function of \<open>useStoredAnalysis\<close>; \<open>None\<close> is the argument \<open>null\<close>.\<close>

definition useStoredAnalysis :: "string option \<Rightarrow> localStorage \<Rightarrow> jsError + jsval" where
  "useStoredAnalysis analysisId ls =
     (case analysisId of
        None \<Rightarrow> Inr VNull
      | Some aid \<Rightarrow>
          if aid = [] then Inr VNull
          else (case getItem ls (''analysis-'' @ aid) of
                  None \<Rightarrow> Inr VNull
                | Some (OtherText []) \<Rightarrow> Inr VNull
                | Some stored \<Rightarrow> parseText stored))"

text \<open>The query function of \<open>useAnalysisList\<close>.\<close>

definition useAnalysisList :: "localStorage \<Rightarrow> jsError + jsval" where
  "useAnalysisList ls = parseText (orElse (getItem ls ''analysis-ids'') (JsonText (JArray [])))"

definition emptyStorage :: localStorage where
  "emptyStorage = (\<lambda>key. None)"

section \<open>Predicates of the properties\<close>

text \<open>A value that is a number and does not lie in the closed interval.\<close>

fun notWithin :: "rat \<Rightarrow> rat \<Rightarrow> jsval \<Rightarrow> bool" where
  "notWithin lo hi (VNum (Fin q)) = (q < lo \<or> hi < q)"
| "notWithin lo hi (VNum _) = True"
| "notWithin lo hi _ = False"

definition breakdownCategories :: "string list" where
  "breakdownCategories =
     [''payment'', ''liability'', ''termination'', ''confidentiality'', ''intellectual_property'']"

text \<open>
  Some score of the candidate is out of range: the top-level \<open>riskScore\<close>, the
  \<open>riskScore\<close> of a clause or a sub-score of \<open>riskBreakdown\<close> outside \<open>[0,100]\<close>, or
  \<open>confidence\<close> outside \<open>[0,1]\<close>.
\<close>

definition scoreOutOfRange :: "jsval \<Rightarrow> bool" where
  "scoreOutOfRange c =
     (notWithin 0 100 (getProp c ''riskScore'')
      \<or> list_ex (\<lambda>cl. notWithin 0 100 (getProp cl ''riskScore'')) (elems (getProp c ''clauses''))
      \<or> list_ex (\<lambda>k. notWithin 0 100 (getProp (getProp c ''riskBreakdown'') k)) breakdownCategories
      \<or> notWithin 0 1 (getProp c ''confidence''))"

text \<open>The score fields of a record, in a fixed order.\<close>

definition scoreFields :: "jsval \<Rightarrow> jsval list" where
  "scoreFields c =
     [getProp c ''riskScore'', getProp c ''confidence'']
     @ map (getProp (getProp c ''riskBreakdown'')) breakdownCategories
     @ map (\<lambda>cl. getProp cl ''riskScore'') (elems (getProp c ''clauses''))"

section \<open>Example inputs\<close>

definition exampleText :: string where
  "exampleText = ''Payment is due in thirty days.''"

definition exampleClause :: "jsval \<Rightarrow> jsval \<Rightarrow> jsval" where
  "exampleClause startIndex endIndex = VObj
     [(''id'', VStr ''clause_1''),
      (''title'', VStr ''Payment terms''),
      (''content'', VStr ''Payment is due''),
      (''riskLevel'', VStr ''low''),
      (''riskScore'', VNum (Fin 20)),
      (''explanation'', VStr ''Standard payment term.''),
      (''suggestions'', VArr [VStr ''State the currency.'']),
      (''startIndex'', startIndex),
      (''endIndex'', endIndex)]"

definition exampleBreakdown :: "(string \<times> jsval) list" where
  "exampleBreakdown =
     [(''payment'', VNum (Fin 10)),
      (''liability'', VNum (Fin 20)),
      (''termination'', VNum (Fin 30)),
      (''confidentiality'', VNum (Fin 40)),
      (''intellectual_property'', VNum (Fin 50))]"

definition exampleResponse :: "jsval \<Rightarrow> (string \<times> jsval) list \<Rightarrow> (string \<times> jsval) list" where
  "exampleResponse clause breakdown =
     [(''riskScore'', VNum (Fin 42)),
      (''clauses'', VArr [clause]),
      (''keyIssues'', VArr [VObj
         [(''id'', VStr ''issue_1''),
          (''title'', VStr ''Late payment''),
          (''description'', VStr ''No interest on late payment.''),
          (''riskLevel'', VStr ''medium''),
          (''clause'', VStr ''Payment terms''),
          (''suggestion'', VStr ''Add a late fee.'')]]),
      (''missingProtections'', VArr [VObj
         [(''id'', VStr ''missing_1''),
          (''title'', VStr ''Liability cap''),
          (''description'', VStr ''No cap on liability.''),
          (''importance'', VStr ''important''),
          (''sampleClause'', VStr ''Liability is limited to the fees paid.'')]]),
      (''riskBreakdown'', VObj breakdown),
      (''plainLanguageSummary'', VStr ''A short and balanced agreement.''),
      (''confidence'', VNum (Fin (85 / 100)))]"

text \<open>A response whose clause spans characters 0 to 14 of the example text.\<close>

definition okResponse :: "(string \<times> jsval) list" where
  "okResponse = exampleResponse (exampleClause (VNum (Fin 0)) (VNum (Fin 14))) exampleBreakdown"

text \<open>The same with \<open>startIndex\<close> 10 and \<open>endIndex\<close> 5.\<close>

definition spanResponse :: "(string \<times> jsval) list" where
  "spanResponse = exampleResponse (exampleClause (VNum (Fin 10)) (VNum (Fin 5))) exampleBreakdown"

text \<open>The same with a \<open>startIndex\<close> that is not a number.\<close>

definition textSpanResponse :: "(string \<times> jsval) list" where
  "textSpanResponse = exampleResponse (exampleClause (VStr ''ten'') (VNum (Fin 14))) exampleBreakdown"

text \<open>Responses with a sixth category, and without \<open>intellectual_property\<close>.\<close>

definition sixCategoryResponse :: "(string \<times> jsval) list" where
  "sixCategoryResponse =
     exampleResponse (exampleClause (VNum (Fin 0)) (VNum (Fin 14)))
       (exampleBreakdown @ [(''regulatory'', VNum (Fin 60))])"

definition fourCategoryResponse :: "(string \<times> jsval) list" where
  "fourCategoryResponse =
     exampleResponse (exampleClause (VNum (Fin 0)) (VNum (Fin 14))) (butlast exampleBreakdown)"

text \<open>A response with a top-level \<open>riskScore\<close> of 150.\<close>

definition overScoreResponse :: "(string \<times> jsval) list" where
  "overScoreResponse = AList.update ''riskScore'' (VNum (Fin 150)) okResponse"

text \<open>A response that carries an \<open>id\<close> and an \<open>analysisDate\<close> of its own.\<close>

definition stampedResponse :: "(string \<times> jsval) list" where
  "stampedResponse =
     (''id'', VStr ''model-id'') # (''analysisDate'', VStr ''2020-01-01T00:00:00.000Z'') # okResponse"

text \<open>A record of type \<open>ContractAnalysis\<close> with the given identifier, dated at time 1000.\<close>

definition exampleAnalysis :: "string \<Rightarrow> ContractAnalysis" where
  "exampleAnalysis aid =
     ContractAnalysis aid ''Loan'' exampleText (Fin 42)
       [Clause ''clause_1'' ''Payment terms'' ''Payment is due'' RiskLow (Fin 20)
          ''Standard payment term.'' [''State the currency.''] (Fin 0) (Fin 14)]
       [KeyIssue ''issue_1'' ''Late payment'' ''No interest on late payment.'' RiskMedium
          ''Payment terms'' ''Add a late fee.'']
       [MissingProtection ''missing_1'' ''Liability cap'' ''No cap on liability.'' Important
          ''Liability is limited to the fees paid.'']
       (RiskBreakdown (Fin 10) (Fin 20) (Fin 30) (Fin 40) (Fin 50))
       ''A short and balanced agreement.'' (Fin (85 / 100)) (Some 1000)"

section \<open>Properties of the classifier\<close>

lemma wordCode_isWordChar: "wordCode n = isWordChar n"
  by (auto simp: wordCode_def isWordChar_def)

lemma wordEdge_boundaryAt: "wordEdge s q = boundaryAt s q"
  by (cases q) (auto simp: wordEdge_def boundaryAt_def wordAt_def wordCode_isWordChar)

text \<open>The regular expression of a group matches exactly where the group has a word-boundary match.\<close>

lemma regexMatch_wholeWord: "regexMatch alts s = wholeWordIn alts s"
proof -
  have r: "(\<exists>p \<in> set [0..<Suc (length s)]. P p) = (\<exists>p \<le> length s. P p)" for P
    unfolding set_upt by (metis atLeastLessThan_iff less_Suc_eq_le zero_le)
  show ?thesis
    unfolding regexMatch_def matchAt_def wholeWordIn_def list_ex_iff wordEdge_boundaryAt r
    by blast
qed

lemma wholeWordIn_mono:
  assumes "wholeWordIn [k] s" and "k \<in> set alts"
  shows "wholeWordIn alts s"
  using assms unfolding wholeWordIn_def by auto

lemma detectContractDomain_firstMatch:
  "detectContractDomain toLowerCase contractText title
     = firstMatch (toLowerCase (contractText @ units '' '' @ title))"
  by (simp add: detectContractDomain_def firstMatch_def priorityOrder_def Let_def
        regexMatch_wholeWord)

lemma detectContractDomain_in_tags:
  "detectContractDomain toLowerCase contractText title \<in> set domainTags"
  by (simp add: detectContractDomain_def domainTags_def Let_def)

lemma firstMatch_none:
  assumes "\<forall>g \<in> set priorityOrder. \<not> wholeWordIn (snd g) text"
  shows "firstMatch text = ''general''"
proof -
  from assms have "find (\<lambda>g. wholeWordIn (snd g) text) priorityOrder = None"
    unfolding find_None_iff by blast
  then show ?thesis by (simp add: firstMatch_def)
qed

lemma firstMatch_finance:
  assumes "wholeWordIn financeTerms text"
  shows "firstMatch text = ''finance''"
  using assms by (simp add: firstMatch_def priorityOrder_def)

text \<open>The classifier at example inputs, evaluated with the case mapping of Latin-1.\<close>

lemma classify_examples:
  "detectContractDomain lowerLatin1 (units ''A LOAN to buy SOFTWARE'') (units ''Loan'') = ''finance''"
  "detectContractDomain lowerLatin1 (units ''software for a loan'') [] = ''finance''"
  "detectContractDomain lowerLatin1 (units ''loans software'') [] = ''technology''"
  "detectContractDomain lowerLatin1 (units ''a megabank holiday'') [] = ''general''"
  "detectContractDomain lowerLatin1 (units ''loan_1 software'') [] = ''technology''"
  "detectContractDomain lowerLatin1 (units ''loan-software'') [] = ''finance''"
  "detectContractDomain lowerLatin1 (units ''ban'') (units ''k'') = ''general''"
  "detectContractDomain lowerLatin1 (units ''hedge'') (units ''fund'') = ''finance''"
  "detectContractDomain lowerLatin1 (units ''lease policy'') [] = ''real_estate''"
  "detectContractDomain lowerLatin1 (units ''policy job'') [] = ''insurance''"
  "detectContractDomain lowerLatin1 (units ''job software'') [] = ''employment''"
  "detectContractDomain lowerLatin1 (units ''software medical'') [] = ''technology''"
  "detectContractDomain lowerLatin1 (units ''medical building'') [] = ''healthcare''"
  "detectContractDomain lowerLatin1 (units ''materials'') [] = ''construction''"
  "detectContractDomain lowerLatin1 (units ''vendor audit'') [] = ''vendor''"
  "detectContractDomain lowerLatin1 (units ''audit'') [] = ''professional''"
  "detectContractDomain lowerLatin1 (units ''nothing here'') [] = ''general''"
  by code_simp+

text \<open>
  C1. For every text and title the classifier lower-cases the text and the title, joined
  by a space, and returns the first group, in the order finance, real_estate, insurance,
  employment, technology, healthcare, construction, vendor, professional, that has a
  word-boundary match; it returns \<open>general\<close> when no group has one. It is a total
  function of its arguments and has no effect. When both \<open>loan\<close> and \<open>software\<close> have
  a word-boundary match, so that the finance group and the technology group both match,
  the domain is finance and not technology. The last seventeen conjuncts are the
  classifier at explicit inputs: upper case, a keyword inside a longer word on either
  side, characters that do and do not end a word, the join of text and title, and two
  groups at once for every step of the order.
\<close>

theorem classify_first_match:
  "detectContractDomain toLowerCase contractText title =
     firstMatch (toLowerCase (contractText @ units '' '' @ title))
   \<and> map fst priorityOrder =
       [''finance'', ''real_estate'', ''insurance'', ''employment'', ''technology'',
        ''healthcare'', ''construction'', ''vendor'', ''professional'']
   \<and> ((\<forall>g \<in> set priorityOrder.
          \<not> wholeWordIn (snd g) (toLowerCase (contractText @ units '' '' @ title)))
        \<longrightarrow> detectContractDomain toLowerCase contractText title = ''general'')
   \<and> (wholeWordIn [''loan''] (toLowerCase (contractText @ units '' '' @ title))
        \<and> wholeWordIn [''software''] (toLowerCase (contractText @ units '' '' @ title))
        \<longrightarrow> wholeWordIn financeTerms (toLowerCase (contractText @ units '' '' @ title))
          \<and> wholeWordIn technologyTerms (toLowerCase (contractText @ units '' '' @ title))
          \<and> detectContractDomain toLowerCase contractText title = ''finance'')
   \<and> detectContractDomain lowerLatin1 (units ''A LOAN to buy SOFTWARE'') (units ''Loan'') = ''finance''
   \<and> detectContractDomain lowerLatin1 (units ''software for a loan'') [] = ''finance''
   \<and> detectContractDomain lowerLatin1 (units ''loans software'') [] = ''technology''
   \<and> detectContractDomain lowerLatin1 (units ''a megabank holiday'') [] = ''general''
   \<and> detectContractDomain lowerLatin1 (units ''loan_1 software'') [] = ''technology''
   \<and> detectContractDomain lowerLatin1 (units ''loan-software'') [] = ''finance''
   \<and> detectContractDomain lowerLatin1 (units ''ban'') (units ''k'') = ''general''
   \<and> detectContractDomain lowerLatin1 (units ''hedge'') (units ''fund'') = ''finance''
   \<and> detectContractDomain lowerLatin1 (units ''lease policy'') [] = ''real_estate''
   \<and> detectContractDomain lowerLatin1 (units ''policy job'') [] = ''insurance''
   \<and> detectContractDomain lowerLatin1 (units ''job software'') [] = ''employment''
   \<and> detectContractDomain lowerLatin1 (units ''software medical'') [] = ''technology''
   \<and> detectContractDomain lowerLatin1 (units ''medical building'') [] = ''healthcare''
   \<and> detectContractDomain lowerLatin1 (units ''materials'') [] = ''construction''
   \<and> detectContractDomain lowerLatin1 (units ''vendor audit'') [] = ''vendor''
   \<and> detectContractDomain lowerLatin1 (units ''audit'') [] = ''professional''
   \<and> detectContractDomain lowerLatin1 (units ''nothing here'') [] = ''general''"
proof -
  let ?t = "toLowerCase (contractText @ units '' '' @ title)"
  have eq: "detectContractDomain toLowerCase contractText title = firstMatch ?t"
    by (rule detectContractDomain_firstMatch)
  have names: "map fst priorityOrder =
       [''finance'', ''real_estate'', ''insurance'', ''employment'', ''technology'',
        ''healthcare'', ''construction'', ''vendor'', ''professional'']"
    by (simp add: priorityOrder_def)
  have none: "detectContractDomain toLowerCase contractText title = ''general''"
    if "\<forall>g \<in> set priorityOrder. \<not> wholeWordIn (snd g) ?t"
    using that by (simp add: eq firstMatch_none)
  have both: "wholeWordIn financeTerms ?t \<and> wholeWordIn technologyTerms ?t
              \<and> detectContractDomain toLowerCase contractText title = ''finance''"
    if "wholeWordIn [''loan''] ?t \<and> wholeWordIn [''software''] ?t"
  proof -
    have "''loan'' \<in> set financeTerms"
      by (simp add: financeTerms_def)
    with that have f: "wholeWordIn financeTerms ?t"
      using wholeWordIn_mono by blast
    have "''software'' \<in> set technologyTerms"
      by (simp add: technologyTerms_def)
    with that have t: "wholeWordIn technologyTerms ?t"
      using wholeWordIn_mono by blast
    from f t show ?thesis
      by (simp add: eq firstMatch_finance)
  qed
  from none have none': "(\<forall>g \<in> set priorityOrder. \<not> wholeWordIn (snd g) ?t)
        \<longrightarrow> detectContractDomain toLowerCase contractText title = ''general''"
    by blast
  from both have both': "wholeWordIn [''loan''] ?t \<and> wholeWordIn [''software''] ?t
        \<longrightarrow> wholeWordIn financeTerms ?t \<and> wholeWordIn technologyTerms ?t
          \<and> detectContractDomain toLowerCase contractText title = ''finance''"
    by blast
  show ?thesis
    by (intro conjI) (fact eq names none' both' classify_examples)+
qed

theorem classify_first_match_witness:
  "wholeWordIn [''loan''] (lowerLatin1 (units ''A LOAN to buy SOFTWARE'' @ units '' '' @ units ''Loan''))
   \<and> wholeWordIn [''software''] (lowerLatin1 (units ''A LOAN to buy SOFTWARE'' @ units '' '' @ units ''Loan''))
   \<and> wholeWordIn technologyTerms (lowerLatin1 (units ''A LOAN to buy SOFTWARE'' @ units '' '' @ units ''Loan''))
   \<and> detectContractDomain lowerLatin1 (units ''A LOAN to buy SOFTWARE'') (units ''Loan'') = ''finance''
   \<and> list_all (\<lambda>g. \<not> wholeWordIn (snd g) (lowerLatin1 (units ''nothing here'' @ units '' '' @ [])))
         priorityOrder
   \<and> detectContractDomain lowerLatin1 (units ''nothing here'') [] = ''general''"
proof -
  let ?t = "lowerLatin1 (units ''A LOAN to buy SOFTWARE'' @ units '' '' @ units ''Loan'')"
  let ?n = "lowerLatin1 (units ''nothing here'' @ units '' '' @ [])"
  have "regexMatch [''loan''] ?t" by code_simp
  then have 1: "wholeWordIn [''loan''] ?t" by (simp add: regexMatch_wholeWord)
  have "regexMatch [''software''] ?t" by code_simp
  then have 2: "wholeWordIn [''software''] ?t" by (simp add: regexMatch_wholeWord)
  have "list_all (\<lambda>g. \<not> regexMatch (snd g) ?n) priorityOrder" by code_simp
  then have 3: "\<forall>g \<in> set priorityOrder. \<not> wholeWordIn (snd g) ?n"
    by (simp add: list_all_iff regexMatch_wholeWord)
  note c = classify_first_match [of lowerLatin1 "units ''A LOAN to buy SOFTWARE''" "units ''Loan''"]
  note d = classify_first_match [of lowerLatin1 "units ''nothing here''" "[]"]
  from c 1 2 have a: "wholeWordIn technologyTerms ?t
      \<and> detectContractDomain lowerLatin1 (units ''A LOAN to buy SOFTWARE'') (units ''Loan'') = ''finance''"
    by blast
  from d 3 have b: "detectContractDomain lowerLatin1 (units ''nothing here'') [] = ''general''"
    by blast
  from 3 have 4: "list_all (\<lambda>g. \<not> wholeWordIn (snd g) ?n) priorityOrder"
    by (simp add: list_all_iff)
  from 1 2 4 a b show ?thesis by blast
qed

section \<open>Properties of the configuration table\<close>

text \<open>
  C3. The table has an entry for each of the ten domain tags, hence for every value the
  classifier returns, and the thresholds of every entry satisfy
  \<open>0 \<le> low < medium < high \<le> 100\<close>.
\<close>

theorem domainConfig_exhaustive_ordered:
  "(\<forall>d \<in> set domainTags. \<exists>cfg. config d = Some cfg \<and> thresholdsOrdered (riskThresholds cfg))
   \<and> (\<exists>cfg. config (detectContractDomain toLowerCase contractText title) = Some cfg
              \<and> thresholdsOrdered (riskThresholds cfg))
   \<and> map fst domainConfig = domainTags"
proof -
  have all: "\<forall>d \<in> set domainTags. \<exists>cfg. config d = Some cfg \<and> thresholdsOrdered (riskThresholds cfg)"
    by (simp add: domainTags_def config_def domainConfig_def thresholdsOrdered_def)
  moreover from all detectContractDomain_in_tags [of toLowerCase contractText title]
  have "\<exists>cfg. config (detectContractDomain toLowerCase contractText title) = Some cfg
              \<and> thresholdsOrdered (riskThresholds cfg)"
    by blast
  moreover have "map fst domainConfig = domainTags"
    by (simp add: domainConfig_def domainTags_def)
  ultimately show ?thesis by blast
qed

theorem domainConfig_exhaustive_ordered_witness:
  "''vendor'' \<in> set domainTags
   \<and> (\<exists>cfg. config ''vendor'' = Some cfg \<and> thresholdsOrdered (riskThresholds cfg))"
proof -
  have h: "''vendor'' \<in> set domainTags"
    by (simp add: domainTags_def)
  from domainConfig_exhaustive_ordered [of lowerLatin1 "[]" "[]"] h show ?thesis
    by blast
qed

text \<open>
  C6. The entries for finance, vendor and general hold the values the specification names.
\<close>

theorem config_named_values:
  "map_option (\<lambda>c. (penaltyMultiplier c, riskThresholds c)) (config ''finance'')
     = Some (12 / 10, \<lparr>low = 30, medium = 60, high = 80\<rparr>)
   \<and> map_option (\<lambda>c. (penaltyMultiplier c, riskThresholds c)) (config ''vendor'')
     = Some (7 / 10, \<lparr>low = 20, medium = 45, high = 65\<rparr>)
   \<and> map_option (\<lambda>c. (penaltyMultiplier c, riskThresholds c)) (config ''general'')
     = Some (9 / 10, \<lparr>low = 25, medium = 50, high = 70\<rparr>)"
  by (simp add: config_def domainConfig_def)

section \<open>Parsing against a schema\<close>

declare parseZ.simps [simp del]

lemma parseZ_obj:
  "parseZ (ZObject shape) p (VObj fs) =
     (concat (map (\<lambda>ks. fst (parseZ (snd ks) (p @ [Key (fst ks)]) (propOf fs (fst ks)))) shape),
      VObj (map (\<lambda>ks. (fst ks, snd (parseZ (snd ks) (p @ [Key (fst ks)]) (propOf fs (fst ks))))) shape))"
  by (simp add: parseZ.simps Let_def comp_def)

lemma parseZ_arr:
  "parseZ (ZArray s) p (VArr xs) =
     (concat (map (\<lambda>ix. fst (parseZ s (p @ [Idx (fst ix)]) (snd ix))) (enumerate 0 xs)),
      VArr (map (\<lambda>ix. snd (parseZ s (p @ [Idx (fst ix)]) (snd ix))) (enumerate 0 xs)))"
  by (simp add: parseZ.simps Let_def comp_def)

lemma parseZ_obj_shape:
  "fst (parseZ (ZObject shape) p v) = [] \<Longrightarrow> \<exists>fs. v = VObj fs"
  by (cases v) (simp_all add: parseZ.simps)

lemma parseZ_arr_shape:
  "fst (parseZ (ZArray s) p v) = [] \<Longrightarrow> \<exists>xs. v = VArr xs"
  by (cases v) (simp_all add: parseZ.simps)

lemma parseZ_obj_issues:
  assumes "(k, s) \<in> set shape"
  shows "set (fst (parseZ s (p @ [Key k]) (propOf fs k))) \<subseteq> set (fst (parseZ (ZObject shape) p (VObj fs)))"
  using assms by (force simp: parseZ_obj)

lemma parseZ_arr_issues:
  assumes "i < length xs"
  shows "set (fst (parseZ s (p @ [Idx i]) (xs ! i))) \<subseteq> set (fst (parseZ (ZArray s) p (VArr xs)))"
proof -
  from assms have "(i, xs ! i) \<in> set (enumerate 0 xs)"
    by (simp add: in_set_enumerate_eq)
  then show ?thesis
    by (force simp: parseZ_arr)
qed

lemma parseZ_obj_ok:
  assumes "fst (parseZ (ZObject shape) p (VObj fs)) = []" and "(k, s) \<in> set shape"
  shows "fst (parseZ s (p @ [Key k]) (propOf fs k)) = []"
  using parseZ_obj_issues [OF assms(2), of p fs] assms(1) by simp

lemma parseZ_arr_ok:
  assumes "fst (parseZ (ZArray s) p (VArr xs)) = []" and "i < length xs"
  shows "fst (parseZ s (p @ [Idx i]) (xs ! i)) = []"
  using parseZ_arr_issues [OF assms(2), of s p] assms(1) by simp

lemma parseZ_date: "parseZ ZDate p (VDate (Some t)) = ([], VDate (Some t))"
  by (simp add: parseZ.simps)

lemma checkIssue_path: "(checkIssue p n c = []) = (checkIssue p' n c = [])"
  by (cases c) simp_all

text \<open>Whether a value is accepted, and the output, do not depend on the path.\<close>

lemma parseZ_path:
  "(fst (parseZ s p v) = []) = (fst (parseZ s p' v) = []) \<and> snd (parseZ s p v) = snd (parseZ s p' v)"
proof (induction s arbitrary: p p' v)
  case ZString
  show ?case by (cases v) (simp_all add: parseZ.simps)
next
  case (ZNumber checks)
  show ?case
  proof (cases v)
    case (VNum n)
    then show ?thesis
      using checkIssue_path [of p n _ p'] by (auto simp: parseZ.simps)
  qed (simp_all add: parseZ.simps)
next
  case (ZEnum vals)
  show ?case by (cases v) (simp_all add: parseZ.simps)
next
  case ZDate
  show ?case by (cases v) (simp_all add: parseZ.simps split: option.splits)
next
  case (ZArray s)
  show ?case
  proof (cases v)
    case (VArr xs)
    have "\<And>ix. (fst (parseZ s (p @ [Idx (fst ix)]) (snd ix)) = [])
              = (fst (parseZ s (p' @ [Idx (fst ix)]) (snd ix)) = [])"
      and "\<And>ix. snd (parseZ s (p @ [Idx (fst ix)]) (snd ix))
              = snd (parseZ s (p' @ [Idx (fst ix)]) (snd ix))"
      using ZArray.IH by blast+
    then show ?thesis
      unfolding VArr parseZ_arr by simp
  qed (simp_all add: parseZ.simps)
next
  case (ZObject shape)
  show ?case
  proof (cases v)
    case (VObj fs)
    have a: "\<And>ks. ks \<in> set shape \<Longrightarrow>
               (fst (parseZ (snd ks) (p @ [Key (fst ks)]) (propOf fs (fst ks))) = [])
             = (fst (parseZ (snd ks) (p' @ [Key (fst ks)]) (propOf fs (fst ks))) = [])"
      and b: "\<And>ks. ks \<in> set shape \<Longrightarrow>
               snd (parseZ (snd ks) (p @ [Key (fst ks)]) (propOf fs (fst ks)))
             = snd (parseZ (snd ks) (p' @ [Key (fst ks)]) (propOf fs (fst ks)))"
      using ZObject.IH Basic_BNFs.snds.intros by blast+
    show ?thesis
      unfolding VObj parseZ_obj using a b by simp
  qed (simp_all add: parseZ.simps)
qed

text \<open>
  Parsing the output of a successful parse again succeeds and returns it unchanged. The
  proof is by induction on the schema; for an object, the output has exactly the keys of
  the shape, each once, so every field is found again.
\<close>

lemma propOf_rebuilt:
  assumes "distinct (map fst shape)" and "ks \<in> set shape"
  shows "propOf (map (\<lambda>ks. (fst ks, g ks)) shape) (fst ks) = g ks"
proof -
  have "map_of (map (\<lambda>ks. (fst ks, g ks)) shape) (fst ks) = Some (g ks)"
    using assms
  proof (induction shape)
    case Nil
    then show ?case by simp
  next
    case (Cons a shape)
    then show ?case by (auto simp: image_iff)
  qed
  then show ?thesis by (simp add: propOf_def)
qed

lemma parseZ_idem:
  assumes "wfSchema s" and "fst (parseZ s p v) = []"
  shows "parseZ s p' (snd (parseZ s p v)) = ([], snd (parseZ s p v))"
  using assms
proof (induction s arbitrary: p p' v)
  case ZString
  then show ?case by (cases v) (simp_all add: parseZ.simps)
next
  case (ZNumber checks)
  then show ?case
  proof (cases v)
    case (VNum n)
    with ZNumber show ?thesis
      using checkIssue_path [of p n _ p'] by (auto simp: parseZ.simps split: if_splits)
  qed (simp_all add: parseZ.simps)
next
  case (ZEnum vals)
  then show ?case by (cases v) (simp_all add: parseZ.simps split: if_splits)
next
  case ZDate
  then show ?case by (cases v) (simp_all add: parseZ.simps split: option.splits)
next
  case (ZArray s)
  from ZArray.prems(2) obtain xs where v: "v = VArr xs"
    using parseZ_arr_shape by blast
  define ys where "ys = map (\<lambda>ix. snd (parseZ s (p @ [Idx (fst ix)]) (snd ix))) (enumerate 0 xs)"
  have out: "snd (parseZ (ZArray s) p v) = VArr ys"
    by (simp add: v parseZ_arr ys_def)
  have each: "parseZ s (p' @ [Idx (fst jy)]) (snd jy) = ([], snd jy)" if "jy \<in> set (enumerate 0 ys)" for jy
  proof -
    from that have j: "fst jy < length xs" and y: "snd jy = ys ! fst jy"
      by (auto simp: in_set_enumerate_eq ys_def)
    from j have "ys ! fst jy = snd (parseZ s (p @ [Idx (fst jy)]) (xs ! fst jy))"
      by (simp add: ys_def nth_enumerate_eq)
    moreover have "fst (parseZ s (p @ [Idx (fst jy)]) (xs ! fst jy)) = []"
      using parseZ_arr_ok ZArray.prems(2) j unfolding v by blast
    ultimately show ?thesis
      using ZArray.IH [of "p @ [Idx (fst jy)]" "xs ! fst jy" "p' @ [Idx (fst jy)]"] ZArray.prems(1) y
      by simp
  qed
  have "concat (map (\<lambda>jy. fst (parseZ s (p' @ [Idx (fst jy)]) (snd jy))) (enumerate 0 ys)) = []"
    using each by simp
  moreover have "map (\<lambda>jy. snd (parseZ s (p' @ [Idx (fst jy)]) (snd jy))) (enumerate 0 ys)
                   = map snd (enumerate 0 ys)"
    using each by (intro map_cong) simp_all
  ultimately show ?case
    unfolding out parseZ_arr by simp
next
  case (ZObject shape)
  from ZObject.prems(2) obtain fs where v: "v = VObj fs"
    using parseZ_obj_shape by blast
  define g where "g = (\<lambda>ks. snd (parseZ (snd ks) (p @ [Key (fst ks)]) (propOf fs (fst ks))))"
  define os where "os = map (\<lambda>ks. (fst ks, g ks)) shape"
  have out: "snd (parseZ (ZObject shape) p v) = VObj os"
    by (simp add: v parseZ_obj os_def g_def)
  from ZObject.prems(1) have d: "distinct (map fst shape)"
    and wf: "\<And>ks. ks \<in> set shape \<Longrightarrow> wfSchema (snd ks)"
    by (simp_all add: list_all_iff)
  have each: "parseZ (snd ks) (p' @ [Key (fst ks)]) (propOf os (fst ks)) = ([], g ks)"
    if "ks \<in> set shape" for ks
  proof -
    have "propOf os (fst ks) = g ks"
      unfolding os_def using d that by (rule propOf_rebuilt)
    moreover have "fst (parseZ (snd ks) (p @ [Key (fst ks)]) (propOf fs (fst ks))) = []"
      using parseZ_obj_ok [of shape p fs "fst ks" "snd ks"] ZObject.prems(2) that
      unfolding v by simp
    moreover have "snd ks \<in> Basic_BNFs.snds ks"
      by (rule Basic_BNFs.snds.intros)
    ultimately show ?thesis
      using ZObject.IH [OF that, of "snd ks" "p @ [Key (fst ks)]" "propOf fs (fst ks)" "p' @ [Key (fst ks)]"]
        wf [OF that]
      by (simp add: g_def)
  qed
  have "concat (map (\<lambda>ks. fst (parseZ (snd ks) (p' @ [Key (fst ks)]) (propOf os (fst ks)))) shape) = []"
    using each by simp
  moreover have "map (\<lambda>ks. (fst ks, snd (parseZ (snd ks) (p' @ [Key (fst ks)]) (propOf os (fst ks))))) shape
                   = map (\<lambda>ks. (fst ks, g ks)) shape"
    using each by (intro map_cong) simp_all
  ultimately show ?case
    unfolding out parseZ_obj by (simp add: os_def)
qed

lemma safeParse_Inr:
  "(safeParse s v = Inr r) = (fst (parseZ s [] v) = [] \<and> r = snd (parseZ s [] v))"
  by (cases "parseZ s [] v"; cases "fst (parseZ s [] v)") (auto simp: safeParse_def)

lemma safeParse_Inl:
  "(safeParse s v = Inl is) = (is \<noteq> [] \<and> is = fst (parseZ s [] v))"
  by (cases "parseZ s [] v"; cases "fst (parseZ s [] v)") (auto simp: safeParse_def)

lemma wf_contractAnalysisSchema: "wfSchema contractAnalysisSchema"
  by (simp add: contractAnalysisSchema_def clauseSchema_def)

lemma safeParse_idem:
  assumes "safeParse contractAnalysisSchema c = Inr r"
  shows "safeParse contractAnalysisSchema r = Inr r"
  using assms parseZ_idem [OF wf_contractAnalysisSchema, of "[]" c "[]"]
  by (simp add: safeParse_Inr)

text \<open>What acceptance says of the fields and elements of the input and of the output.\<close>

lemma accepted_field:
  assumes "fst (parseZ (ZObject shape) p c) = []" and "(k, s) \<in> set shape"
  shows "fst (parseZ s (p @ [Key k]) (getProp c k)) = []"
proof -
  from assms(1) obtain fs where "c = VObj fs"
    using parseZ_obj_shape by blast
  with assms show ?thesis
    using parseZ_obj_ok by simp
qed

lemma accepted_elem:
  assumes "fst (parseZ (ZArray s) p v) = []" and "x \<in> set (elems v)"
  shows "\<exists>i. fst (parseZ s (p @ [Idx i]) x) = []"
proof -
  from assms(1) obtain xs where v: "v = VArr xs"
    using parseZ_arr_shape by blast
  with assms(2) obtain i where "i < length xs" "x = xs ! i"
    by (auto simp: in_set_conv_nth)
  with assms(1) v show ?thesis
    using parseZ_arr_ok by blast
qed

lemma number_in_range:
  assumes "fst (parseZ (ZNumber [ZMin lo, ZMax hi]) p v) = []"
  shows "\<exists>q. v = VNum (Fin q) \<and> lo \<le> q \<and> q \<le> hi"
proof (cases v)
  case (VNum n)
  with assms show ?thesis
    by (cases n) (auto simp: parseZ.simps split: if_splits)
qed (use assms in \<open>simp_all add: parseZ.simps\<close>)

lemma number_not_within:
  assumes "fst (parseZ (ZNumber [ZMin lo, ZMax hi]) p v) = []"
  shows "\<not> notWithin lo hi v"
  using number_in_range [OF assms] by auto

lemma number_output:
  "fst (parseZ (ZNumber cs) p v) = [] \<Longrightarrow> snd (parseZ (ZNumber cs) p v) = v"
  by (cases v) (simp_all add: parseZ.simps split: if_splits)

lemma string_output:
  "fst (parseZ ZString p v) = [] \<Longrightarrow> snd (parseZ ZString p v) = v"
  by (cases v) (simp_all add: parseZ.simps)

lemma number_invalid:
  "\<nexists>n. v = VNum n \<and> n \<noteq> NaN \<Longrightarrow> fst (parseZ (ZNumber cs) p v) = [(p, invalid_type)]"
  by (cases v) (simp_all add: parseZ.simps)

lemma string_invalid:
  "\<nexists>s. v = VStr s \<Longrightarrow> fst (parseZ ZString p v) = [(p, invalid_type)]"
  by (cases v) (simp_all add: parseZ.simps)

lemma output_field:
  assumes "fst (parseZ (ZObject shape) p c) = []" and "distinct (map fst shape)"
    and "(k, s) \<in> set shape"
  shows "getProp (snd (parseZ (ZObject shape) p c)) k = snd (parseZ s (p @ [Key k]) (getProp c k))"
proof -
  from assms(1) obtain fs where c: "c = VObj fs"
    using parseZ_obj_shape by blast
  show ?thesis
    unfolding c parseZ_obj
    using propOf_rebuilt [OF assms(2,3), of "\<lambda>ks. snd (parseZ (snd ks) (p @ [Key (fst ks)]) (propOf fs (fst ks)))"]
    by simp
qed

lemma output_elems:
  assumes "fst (parseZ (ZArray s) p v) = []"
  shows "elems (snd (parseZ (ZArray s) p v)) =
           map (\<lambda>ix. snd (parseZ s (p @ [Idx (fst ix)]) (snd ix))) (enumerate 0 (elems v))"
proof -
  from assms obtain xs where "v = VArr xs"
    using parseZ_arr_shape by blast
  then show ?thesis by (simp add: parseZ_arr)
qed

lemma propOf_update:
  "propOf (AList.update k v fs) k' = (if k' = k then v else propOf fs k')"
  by (simp add: propOf_def update_conv')

lemma propOf_spread:
  "propOf (spread src tgt) k = (case map_of (rev src) k of Some v \<Rightarrow> v | None \<Rightarrow> propOf tgt k)"
proof (induction src arbitrary: tgt)
  case Nil
  show ?case by (simp add: spread_def)
next
  case (Cons x src)
  have "spread (x # src) tgt = spread src (AList.update (fst x) (snd x) tgt)"
    by (simp add: spread_def)
  then show ?case
    using Cons.IH [of "AList.update (fst x) (snd x) tgt"]
    by (cases x) (auto simp: propOf_update map_add_def split: option.splits)
qed

section \<open>Score ranges\<close>

lemma accepted_scores:
  assumes acc: "fst (parseZ contractAnalysisSchema [] c) = []"
  shows "\<not> scoreOutOfRange c"
proof -
  note top = accepted_field [OF acc [unfolded contractAnalysisSchema_def]]
  have rs: "fst (parseZ (ZNumber [ZMin 0, ZMax 100]) ([] @ [Key ''riskScore'']) (getProp c ''riskScore'')) = []"
    by (rule top) simp
  have cf: "fst (parseZ (ZNumber [ZMin 0, ZMax 1]) ([] @ [Key ''confidence'']) (getProp c ''confidence'')) = []"
    by (rule top) simp
  have cls: "fst (parseZ (ZArray clauseSchema) ([] @ [Key ''clauses'']) (getProp c ''clauses'')) = []"
    by (rule top) simp
  have rb: "fst (parseZ (ZObject
         [(''payment'', ZNumber [ZMin 0, ZMax 100]),
          (''liability'', ZNumber [ZMin 0, ZMax 100]),
          (''termination'', ZNumber [ZMin 0, ZMax 100]),
          (''confidentiality'', ZNumber [ZMin 0, ZMax 100]),
          (''intellectual_property'', ZNumber [ZMin 0, ZMax 100])])
          ([] @ [Key ''riskBreakdown'']) (getProp c ''riskBreakdown'')) = []"
    by (rule top) simp
  have 1: "\<not> notWithin 0 100 (getProp c ''riskScore'')"
    using rs by (rule number_not_within)
  have 2: "\<not> notWithin 0 1 (getProp c ''confidence'')"
    using cf by (rule number_not_within)
  have 3: "\<not> notWithin 0 100 (getProp cl ''riskScore'')" if "cl \<in> set (elems (getProp c ''clauses''))" for cl
  proof -
    from accepted_elem [OF cls that] obtain i
      where "fst (parseZ clauseSchema (([] @ [Key ''clauses'']) @ [Idx i]) cl) = []" by blast
    then have "fst (parseZ (ZNumber [ZMin 0, ZMax 100])
                 ((([] @ [Key ''clauses'']) @ [Idx i]) @ [Key ''riskScore'']) (getProp cl ''riskScore'')) = []"
      unfolding clauseSchema_def by (rule accepted_field) simp
    then show ?thesis by (rule number_not_within)
  qed
  have 4: "\<not> notWithin 0 100 (getProp (getProp c ''riskBreakdown'') k)" if "k \<in> set breakdownCategories" for k
  proof -
    have "fst (parseZ (ZNumber [ZMin 0, ZMax 100]) (([] @ [Key ''riskBreakdown'']) @ [Key k])
                (getProp (getProp c ''riskBreakdown'') k)) = []"
      using rb by (rule accepted_field) (use that in \<open>auto simp: breakdownCategories_def\<close>)
    then show ?thesis by (rule number_not_within)
  qed
  from 1 2 3 4 show ?thesis
    unfolding scoreOutOfRange_def list_ex_iff by blast
qed

lemma accepted_score_fields:
  assumes acc: "fst (parseZ contractAnalysisSchema [] c) = []"
  shows "scoreFields (snd (parseZ contractAnalysisSchema [] c)) = scoreFields c"
proof -
  let ?r = "snd (parseZ contractAnalysisSchema [] c)"
  note top = accepted_field [OF acc [unfolded contractAnalysisSchema_def]]
  note out = output_field [OF acc [unfolded contractAnalysisSchema_def], folded contractAnalysisSchema_def]
  have rs: "getProp ?r ''riskScore'' = getProp c ''riskScore''"
  proof -
    have "fst (parseZ (ZNumber [ZMin 0, ZMax 100]) ([] @ [Key ''riskScore'']) (getProp c ''riskScore'')) = []"
      by (rule top) simp
    moreover have "getProp ?r ''riskScore'' =
        snd (parseZ (ZNumber [ZMin 0, ZMax 100]) ([] @ [Key ''riskScore'']) (getProp c ''riskScore''))"
      by (rule out) simp_all
    ultimately show ?thesis by (simp add: number_output)
  qed
  have cf: "getProp ?r ''confidence'' = getProp c ''confidence''"
  proof -
    have "fst (parseZ (ZNumber [ZMin 0, ZMax 1]) ([] @ [Key ''confidence'']) (getProp c ''confidence'')) = []"
      by (rule top) simp
    moreover have "getProp ?r ''confidence'' =
        snd (parseZ (ZNumber [ZMin 0, ZMax 1]) ([] @ [Key ''confidence'']) (getProp c ''confidence''))"
      by (rule out) simp_all
    ultimately show ?thesis by (simp add: number_output)
  qed
  define bshape where "bshape =
         [(''payment'', ZNumber [ZMin 0, ZMax 100]),
          (''liability'', ZNumber [ZMin 0, ZMax 100]),
          (''termination'', ZNumber [ZMin 0, ZMax 100]),
          (''confidentiality'', ZNumber [ZMin 0, ZMax 100]),
          (''intellectual_property'', ZNumber [ZMin 0, ZMax 100])]"
  have rb: "fst (parseZ (ZObject bshape) ([] @ [Key ''riskBreakdown'']) (getProp c ''riskBreakdown'')) = []"
    unfolding bshape_def by (rule top) simp
  have rbo: "getProp ?r ''riskBreakdown'' =
      snd (parseZ (ZObject bshape) ([] @ [Key ''riskBreakdown'']) (getProp c ''riskBreakdown''))"
    unfolding bshape_def by (rule out) simp_all
  have bd: "getProp (getProp ?r ''riskBreakdown'') k = getProp (getProp c ''riskBreakdown'') k"
    if "k \<in> set breakdownCategories" for k
  proof -
    from that have m: "(k, ZNumber [ZMin 0, ZMax 100]) \<in> set bshape"
      by (auto simp: breakdownCategories_def bshape_def)
    have d: "distinct (map fst bshape)"
      by (simp add: bshape_def)
    show ?thesis
      unfolding rbo output_field [OF rb d m]
      using accepted_field [OF rb m] by (rule number_output)
  qed
  have cls: "fst (parseZ (ZArray clauseSchema) ([] @ [Key ''clauses'']) (getProp c ''clauses'')) = []"
    by (rule top) simp
  have clo: "getProp ?r ''clauses'' =
      snd (parseZ (ZArray clauseSchema) ([] @ [Key ''clauses'']) (getProp c ''clauses''))"
    by (rule out) simp_all
  from cls obtain xs where xs: "getProp c ''clauses'' = VArr xs"
    using parseZ_arr_shape by blast
  have each: "getProp (snd (parseZ clauseSchema (([] @ [Key ''clauses'']) @ [Idx (fst ix)]) (snd ix))) ''riskScore''
                = getProp (snd ix) ''riskScore''"
    if "ix \<in> set (enumerate 0 xs)" for ix
  proof -
    from that have "fst ix < length xs" "snd ix = xs ! fst ix"
      by (auto simp: in_set_enumerate_eq)
    with cls xs have ok: "fst (parseZ clauseSchema (([] @ [Key ''clauses'']) @ [Idx (fst ix)]) (snd ix)) = []"
      using parseZ_arr_ok [of clauseSchema "[] @ [Key ''clauses'']" xs "fst ix"] by simp
    have "fst (parseZ (ZNumber [ZMin 0, ZMax 100])
                 ((([] @ [Key ''clauses'']) @ [Idx (fst ix)]) @ [Key ''riskScore''])
                 (getProp (snd ix) ''riskScore'')) = []"
      using ok unfolding clauseSchema_def by (rule accepted_field) simp
    moreover have "getProp (snd (parseZ clauseSchema (([] @ [Key ''clauses'']) @ [Idx (fst ix)]) (snd ix))) ''riskScore''
        = snd (parseZ (ZNumber [ZMin 0, ZMax 100])
                 ((([] @ [Key ''clauses'']) @ [Idx (fst ix)]) @ [Key ''riskScore''])
                 (getProp (snd ix) ''riskScore''))"
      using ok unfolding clauseSchema_def by (rule output_field) (simp_all add: riskLevels_def)
    ultimately show ?thesis by (simp add: number_output)
  qed
  have "elems (getProp ?r ''clauses'') =
          map (\<lambda>ix. snd (parseZ clauseSchema (([] @ [Key ''clauses'']) @ [Idx (fst ix)]) (snd ix)))
            (enumerate 0 xs)"
    using output_elems [OF cls] clo xs by simp
  then have "map (\<lambda>cl. getProp cl ''riskScore'') (elems (getProp ?r ''clauses''))
          = map (\<lambda>ix. getProp (snd (parseZ clauseSchema (([] @ [Key ''clauses'']) @ [Idx (fst ix)]) (snd ix)))
                   ''riskScore'') (enumerate 0 xs)"
    by (simp add: comp_def)
  also have "\<dots> = map (\<lambda>ix. getProp (snd ix) ''riskScore'') (enumerate 0 xs)"
    by (rule map_cong) (use each in simp_all)
  also have "\<dots> = map (\<lambda>cl. getProp cl ''riskScore'') (map snd (enumerate 0 xs))"
    by (simp only: map_map comp_def)
  finally have cl: "map (\<lambda>cl. getProp cl ''riskScore'') (elems (getProp ?r ''clauses''))
          = map (\<lambda>cl. getProp cl ''riskScore'') (elems (getProp c ''clauses''))"
    by (simp add: xs)
  show ?thesis
    unfolding scoreFields_def using rs cf bd cl by simp
qed

text \<open>
  C4. The schema rejects every candidate that has a score out of range: a top-level
  \<open>riskScore\<close>, a clause \<open>riskScore\<close> or a \<open>riskBreakdown\<close> sub-score that is a number
  outside \<open>[0,100]\<close>, or a \<open>confidence\<close> that is a number outside \<open>[0,1]\<close>. Nothing is
  coerced: an accepted record carries the score fields of the candidate unchanged, and they
  are in range.
\<close>

theorem validate_rejects_out_of_range:
  "(scoreOutOfRange c \<longrightarrow> (\<exists>issues. safeParse contractAnalysisSchema c = Inl issues \<and> issues \<noteq> []))
   \<and> (safeParse contractAnalysisSchema c = Inr r \<longrightarrow> scoreFields r = scoreFields c \<and> \<not> scoreOutOfRange r)"
  using accepted_scores [of c] accepted_score_fields [of c] safeParse_idem [of c r] accepted_scores [of r]
  by (auto simp: safeParse_Inl safeParse_Inr)

theorem validate_rejects_out_of_range_witness:
  "scoreOutOfRange (analysisRecord ''u1'' 1000 ''Loan'' exampleText overScoreResponse)
   \<and> (\<exists>issues. safeParse contractAnalysisSchema
                   (analysisRecord ''u1'' 1000 ''Loan'' exampleText overScoreResponse) = Inl issues
          \<and> issues \<noteq> [])
   \<and> safeParse contractAnalysisSchema (analysisRecord ''u1'' 1000 ''Loan'' exampleText okResponse)
        = Inr (analysisRecord ''u1'' 1000 ''Loan'' exampleText okResponse)
   \<and> \<not> scoreOutOfRange (analysisRecord ''u1'' 1000 ''Loan'' exampleText okResponse)"
proof -
  have 1: "scoreOutOfRange (analysisRecord ''u1'' 1000 ''Loan'' exampleText overScoreResponse)"
    by code_simp
  have 2: "safeParse contractAnalysisSchema (analysisRecord ''u1'' 1000 ''Loan'' exampleText okResponse)
        = Inr (analysisRecord ''u1'' 1000 ''Loan'' exampleText okResponse)"
    by code_simp
  from validate_rejects_out_of_range
         [of "analysisRecord ''u1'' 1000 ''Loan'' exampleText overScoreResponse"] 1
  have a: "\<exists>issues. safeParse contractAnalysisSchema
                   (analysisRecord ''u1'' 1000 ''Loan'' exampleText overScoreResponse) = Inl issues
          \<and> issues \<noteq> []"
    by blast
  from validate_rejects_out_of_range
         [of "analysisRecord ''u1'' 1000 ''Loan'' exampleText okResponse"
             "analysisRecord ''u1'' 1000 ''Loan'' exampleText okResponse"] 2
  have b: "\<not> scoreOutOfRange (analysisRecord ''u1'' 1000 ''Loan'' exampleText okResponse)"
    by blast
  from 1 2 a b show ?thesis by blast
qed

section \<open>Clause spans\<close>

lemma clause_field_issue:
  assumes "(f, s) \<in> set shape" and "i < length cls" and "cls ! i = VObj cfs"
    and "propOf fs ''clauses'' = VArr cls"
    and "fst (parseZ s [Key ''clauses'', Idx i, Key f] (propOf cfs f)) = [e]"
    and "clauseSchema = ZObject shape"
  shows "e \<in> set (fst (parseZ contractAnalysisSchema [] (VObj fs)))"
proof -
  have "set (fst (parseZ s ([Key ''clauses'', Idx i] @ [Key f]) (propOf cfs f)))
          \<subseteq> set (fst (parseZ clauseSchema [Key ''clauses'', Idx i] (VObj cfs)))"
    unfolding assms(6) using assms(1) by (rule parseZ_obj_issues)
  also have "\<dots> \<subseteq> set (fst (parseZ (ZArray clauseSchema) [Key ''clauses''] (VArr cls)))"
    using parseZ_arr_issues [OF assms(2), of clauseSchema "[Key ''clauses'']"] assms(3) by simp
  also have "\<dots> \<subseteq> set (fst (parseZ contractAnalysisSchema [] (VObj fs)))"
    unfolding contractAnalysisSchema_def
    using parseZ_obj_issues [of "''clauses''" "ZArray clauseSchema" _ "[]" fs] assms(4) by simp
  finally show ?thesis
    using assms(5) by simp
qed

text \<open>
  C2, as amended. Of the span of a clause the schema checks the types only. A candidate
  with a clause (an object) whose \<open>startIndex\<close> or \<open>endIndex\<close> is not a number, or is
  \<open>NaN\<close>, or whose \<open>content\<close> is not a string, is rejected, and one of the issues has
  the code \<open>invalid_type\<close> and the path of that field of that clause.
\<close>

theorem validate_clause_field_types:
  assumes "getProp c ''clauses'' = VArr cls" and "i < length cls" and "cls ! i = VObj cfs"
    and "(f \<in> {''startIndex'', ''endIndex''} \<and> (\<nexists>n. propOf cfs f = VNum n \<and> n \<noteq> NaN))
         \<or> (f = ''content'' \<and> (\<nexists>s. propOf cfs f = VStr s))"
  shows "\<exists>issues. safeParse contractAnalysisSchema c = Inl issues
           \<and> ([Key ''clauses'', Idx i, Key f], invalid_type) \<in> set issues"
proof -
  from assms(1) obtain fs where c: "c = VObj fs"
    by (cases c) simp_all
  with assms(1) have cl: "propOf fs ''clauses'' = VArr cls" by simp
  let ?e = "([Key ''clauses'', Idx i, Key f], invalid_type)"
  define shape where "shape = (case clauseSchema of ZObject sh \<Rightarrow> sh | _ \<Rightarrow> [])"
  have sh: "clauseSchema = ZObject shape"
    by (simp add: shape_def clauseSchema_def)
  have mem: "(''startIndex'', ZNumber []) \<in> set shape" "(''endIndex'', ZNumber []) \<in> set shape"
    "(''content'', ZString) \<in> set shape"
    by (simp_all add: shape_def clauseSchema_def)
  from assms(4) consider
      (number) "(f, ZNumber []) \<in> set shape" "\<nexists>n. propOf cfs f = VNum n \<and> n \<noteq> NaN"
    | (content) "(f, ZString) \<in> set shape" "\<nexists>s. propOf cfs f = VStr s"
    using mem by blast
  then have "?e \<in> set (fst (parseZ contractAnalysisSchema [] (VObj fs)))"
  proof cases
    case number
    from number(2) have "fst (parseZ (ZNumber []) [Key ''clauses'', Idx i, Key f] (propOf cfs f)) = [?e]"
      by (rule number_invalid)
    with number(1) show ?thesis
      using clause_field_issue [OF _ assms(2,3) cl _ sh] by blast
  next
    case content
    from content(2) have "fst (parseZ ZString [Key ''clauses'', Idx i, Key f] (propOf cfs f)) = [?e]"
      by (rule string_invalid)
    with content(1) show ?thesis
      using clause_field_issue [OF _ assms(2,3) cl _ sh] by blast
  qed
  then show ?thesis
    unfolding c safeParse_Inl by auto
qed

theorem validate_clause_field_types_witness:
  "getProp (analysisRecord ''u1'' 1000 ''Loan'' exampleText textSpanResponse) ''clauses''
     = VArr [exampleClause (VStr ''ten'') (VNum (Fin 14))]
   \<and> (\<nexists>n. propOf (ownProps (exampleClause (VStr ''ten'') (VNum (Fin 14)))) ''startIndex'' = VNum n \<and> n \<noteq> NaN)
   \<and> (\<exists>issues. safeParse contractAnalysisSchema
                   (analysisRecord ''u1'' 1000 ''Loan'' exampleText textSpanResponse) = Inl issues
         \<and> ([Key ''clauses'', Idx 0, Key ''startIndex''], invalid_type) \<in> set issues)"
proof -
  have 1: "getProp (analysisRecord ''u1'' 1000 ''Loan'' exampleText textSpanResponse) ''clauses''
     = VArr [exampleClause (VStr ''ten'') (VNum (Fin 14))]"
    by code_simp
  have 2: "(0::nat) < length [exampleClause (VStr ''ten'') (VNum (Fin 14))]" by simp
  have 3: "[exampleClause (VStr ''ten'') (VNum (Fin 14))] ! 0
             = VObj (ownProps (exampleClause (VStr ''ten'') (VNum (Fin 14))))"
    by (simp add: exampleClause_def)
  have 5: "propOf (ownProps (exampleClause (VStr ''ten'') (VNum (Fin 14)))) ''startIndex'' = VStr ''ten''"
    by code_simp
  then have 4: "\<nexists>n. propOf (ownProps (exampleClause (VStr ''ten'') (VNum (Fin 14)))) ''startIndex'' = VNum n \<and> n \<noteq> NaN"
    by simp
  from validate_clause_field_types [OF 1 2 3, of "''startIndex''"] 4 1 show ?thesis
    by blast
qed

text \<open>
  The claim as worded fails: the schema relates neither \<open>startIndex\<close> to \<open>endIndex\<close>
  nor either of them to the content. The record built from a response whose clause has
  \<open>startIndex\<close> 10 and \<open>endIndex\<close> 5 is accepted as it is.
\<close>

theorem validate_span_counterexample:
  "getProp (exampleClause (VNum (Fin 10)) (VNum (Fin 5))) ''startIndex'' = VNum (Fin 10)
   \<and> getProp (exampleClause (VNum (Fin 10)) (VNum (Fin 5))) ''endIndex'' = VNum (Fin 5)
   \<and> getProp (analysisRecord ''u1'' 1000 ''Loan'' exampleText spanResponse) ''clauses''
       = VArr [exampleClause (VNum (Fin 10)) (VNum (Fin 5))]
   \<and> safeParse contractAnalysisSchema (analysisRecord ''u1'' 1000 ''Loan'' exampleText spanResponse)
       = Inr (analysisRecord ''u1'' 1000 ''Loan'' exampleText spanResponse)"
  by code_simp

section \<open>The categories of the risk breakdown\<close>

lemma breakdown_accepted:
  assumes acc: "fst (parseZ contractAnalysisSchema [] c) = []"
  shows "(\<forall>k \<in> set breakdownCategories.
            \<exists>q. getProp (getProp c ''riskBreakdown'') k = VNum (Fin q) \<and> 0 \<le> q \<and> q \<le> 100)
         \<and> map fst (ownProps (getProp (snd (parseZ contractAnalysisSchema [] c)) ''riskBreakdown''))
             = breakdownCategories"
proof -
  define bshape where "bshape =
         [(''payment'', ZNumber [ZMin 0, ZMax 100]),
          (''liability'', ZNumber [ZMin 0, ZMax 100]),
          (''termination'', ZNumber [ZMin 0, ZMax 100]),
          (''confidentiality'', ZNumber [ZMin 0, ZMax 100]),
          (''intellectual_property'', ZNumber [ZMin 0, ZMax 100])]"
  have rb: "fst (parseZ (ZObject bshape) ([] @ [Key ''riskBreakdown'']) (getProp c ''riskBreakdown'')) = []"
    unfolding bshape_def
    by (rule accepted_field [OF acc [unfolded contractAnalysisSchema_def]]) simp
  have rbo: "getProp (snd (parseZ contractAnalysisSchema [] c)) ''riskBreakdown'' =
      snd (parseZ (ZObject bshape) ([] @ [Key ''riskBreakdown'']) (getProp c ''riskBreakdown''))"
    unfolding bshape_def
    by (rule output_field [OF acc [unfolded contractAnalysisSchema_def], folded contractAnalysisSchema_def])
       simp_all
  have "\<exists>q. getProp (getProp c ''riskBreakdown'') k = VNum (Fin q) \<and> 0 \<le> q \<and> q \<le> 100"
    if "k \<in> set breakdownCategories" for k
  proof -
    from that have "(k, ZNumber [ZMin 0, ZMax 100]) \<in> set bshape"
      by (auto simp: breakdownCategories_def bshape_def)
    from accepted_field [OF rb this] show ?thesis
      by (rule number_in_range)
  qed
  moreover from rb obtain bs where "getProp c ''riskBreakdown'' = VObj bs"
    using parseZ_obj_shape by blast
  then have "map fst (ownProps (snd (parseZ (ZObject bshape) ([] @ [Key ''riskBreakdown''])
                                   (getProp c ''riskBreakdown'')))) = map fst bshape"
    by (simp add: parseZ_obj comp_def)
  then have "map fst (ownProps (getProp (snd (parseZ contractAnalysisSchema [] c)) ''riskBreakdown''))
               = breakdownCategories"
    unfolding rbo by (simp add: bshape_def breakdownCategories_def)
  ultimately show ?thesis by blast
qed

lemma breakdown_missing:
  assumes "getProp c ''riskBreakdown'' = VObj bs" and "k \<in> set breakdownCategories"
    and "map_of bs k = None"
  shows "([Key ''riskBreakdown'', Key k], invalid_type) \<in> set (fst (parseZ contractAnalysisSchema [] c))"
proof -
  from assms(1) obtain fs where c: "c = VObj fs"
    by (cases c) simp_all
  with assms(1) have rb: "propOf fs ''riskBreakdown'' = VObj bs" by simp
  define bshape where "bshape =
         [(''payment'', ZNumber [ZMin 0, ZMax 100]),
          (''liability'', ZNumber [ZMin 0, ZMax 100]),
          (''termination'', ZNumber [ZMin 0, ZMax 100]),
          (''confidentiality'', ZNumber [ZMin 0, ZMax 100]),
          (''intellectual_property'', ZNumber [ZMin 0, ZMax 100])]"
  from assms(2) have m: "(k, ZNumber [ZMin 0, ZMax 100]) \<in> set bshape"
    by (auto simp: breakdownCategories_def bshape_def)
  from assms(3) have "propOf bs k = VUndefined"
    by (simp add: propOf_def)
  then have "fst (parseZ (ZNumber [ZMin 0, ZMax 100]) ([Key ''riskBreakdown''] @ [Key k]) (propOf bs k))
               = [([Key ''riskBreakdown''] @ [Key k], invalid_type)]"
    by (simp add: parseZ.simps)
  then have "([Key ''riskBreakdown'', Key k], invalid_type)
               \<in> set (fst (parseZ (ZObject bshape) [Key ''riskBreakdown''] (VObj bs)))"
    using parseZ_obj_issues [OF m, of "[Key ''riskBreakdown'']" bs] by simp
  moreover have "set (fst (parseZ (ZObject bshape) ([] @ [Key ''riskBreakdown'']) (propOf fs ''riskBreakdown'')))
                   \<subseteq> set (fst (parseZ contractAnalysisSchema [] (VObj fs)))"
    unfolding contractAnalysisSchema_def bshape_def
    by (rule parseZ_obj_issues) simp
  ultimately show ?thesis
    unfolding c rb by auto
qed

text \<open>
  C5, as amended. A candidate is accepted only when its \<open>riskBreakdown\<close> has each of the
  five categories as a number in \<open>[0,100]\<close>, and the \<open>riskBreakdown\<close> of the accepted
  record has exactly the five categories. A candidate whose \<open>riskBreakdown\<close> is an object
  that lacks one of the five is rejected, with an issue of code \<open>invalid_type\<close> at the
  path of the missing category.
\<close>

theorem validate_breakdown_categories:
  "(safeParse contractAnalysisSchema c = Inr r \<longrightarrow>
      (\<forall>k \<in> set breakdownCategories.
          \<exists>q. getProp (getProp c ''riskBreakdown'') k = VNum (Fin q) \<and> 0 \<le> q \<and> q \<le> 100)
      \<and> map fst (ownProps (getProp r ''riskBreakdown'')) = breakdownCategories)
   \<and> (getProp c ''riskBreakdown'' = VObj bs \<and> k \<in> set breakdownCategories \<and> map_of bs k = None \<longrightarrow>
        (\<exists>issues. safeParse contractAnalysisSchema c = Inl issues
           \<and> ([Key ''riskBreakdown'', Key k], invalid_type) \<in> set issues))"
  using breakdown_accepted [of c] breakdown_missing [of c bs k]
  by (auto simp: safeParse_Inr safeParse_Inl)

theorem validate_breakdown_categories_witness:
  "safeParse contractAnalysisSchema (analysisRecord ''u1'' 1000 ''Loan'' exampleText sixCategoryResponse)
     = Inr (analysisRecord ''u1'' 1000 ''Loan'' exampleText okResponse)
   \<and> map fst (ownProps (getProp (analysisRecord ''u1'' 1000 ''Loan'' exampleText okResponse) ''riskBreakdown''))
       = breakdownCategories
   \<and> getProp (analysisRecord ''u1'' 1000 ''Loan'' exampleText fourCategoryResponse) ''riskBreakdown''
       = VObj (butlast exampleBreakdown)
   \<and> ''intellectual_property'' \<in> set breakdownCategories
   \<and> map_of (butlast exampleBreakdown) ''intellectual_property'' = None
   \<and> (\<exists>issues. safeParse contractAnalysisSchema
                   (analysisRecord ''u1'' 1000 ''Loan'' exampleText fourCategoryResponse) = Inl issues
          \<and> ([Key ''riskBreakdown'', Key ''intellectual_property''], invalid_type) \<in> set issues)"
proof -
  have 1: "safeParse contractAnalysisSchema (analysisRecord ''u1'' 1000 ''Loan'' exampleText sixCategoryResponse)
     = Inr (analysisRecord ''u1'' 1000 ''Loan'' exampleText okResponse)"
    by code_simp
  have 2: "getProp (analysisRecord ''u1'' 1000 ''Loan'' exampleText fourCategoryResponse) ''riskBreakdown''
       = VObj (butlast exampleBreakdown)"
    by code_simp
  have 3: "''intellectual_property'' \<in> set breakdownCategories"
    by (simp add: breakdownCategories_def)
  have 4: "map_of (butlast exampleBreakdown) ''intellectual_property'' = None"
    by code_simp
  from validate_breakdown_categories
         [of "analysisRecord ''u1'' 1000 ''Loan'' exampleText sixCategoryResponse"
             "analysisRecord ''u1'' 1000 ''Loan'' exampleText okResponse"] 1
  have a: "map fst (ownProps (getProp (analysisRecord ''u1'' 1000 ''Loan'' exampleText okResponse) ''riskBreakdown''))
       = breakdownCategories"
    by blast
  from validate_breakdown_categories
         [of "analysisRecord ''u1'' 1000 ''Loan'' exampleText fourCategoryResponse" _
             "butlast exampleBreakdown" "''intellectual_property''"] 2 3 4
  have b: "\<exists>issues. safeParse contractAnalysisSchema
                   (analysisRecord ''u1'' 1000 ''Loan'' exampleText fourCategoryResponse) = Inl issues
          \<and> ([Key ''riskBreakdown'', Key ''intellectual_property''], invalid_type) \<in> set issues"
    by blast
  from 1 2 3 4 a b show ?thesis by blast
qed

text \<open>
  The claim as worded fails: a sixth category is no reason to reject. The candidate is
  accepted and the accepted record is the one without the extra category.
\<close>

theorem validate_sixth_category_counterexample:
  "getProp (getProp (analysisRecord ''u1'' 1000 ''Loan'' exampleText sixCategoryResponse) ''riskBreakdown'')
      ''regulatory'' = VNum (Fin 60)
   \<and> map fst (ownProps (getProp (analysisRecord ''u1'' 1000 ''Loan'' exampleText sixCategoryResponse)
        ''riskBreakdown'')) = breakdownCategories @ [''regulatory'']
   \<and> safeParse contractAnalysisSchema (analysisRecord ''u1'' 1000 ''Loan'' exampleText sixCategoryResponse)
       = Inr (analysisRecord ''u1'' 1000 ''Loan'' exampleText okResponse)"
  by code_simp

section \<open>Stamping and validating again\<close>

lemma restamped:
  assumes acc: "fst (parseZ contractAnalysisSchema [] (VObj fs)) = []"
  shows "parseZ contractAnalysisSchema [] (VObj (AList.update ''analysisDate'' (VDate (Some t)) fs))
           = ([], VObj (AList.update ''analysisDate'' (VDate (Some t))
                          (ownProps (snd (parseZ contractAnalysisSchema [] (VObj fs))))))"
  using acc
  unfolding contractAnalysisSchema_def parseZ_obj
  by (simp add: propOf_update parseZ_date)

lemma rebuilt:
  "analysisRecord uuid now title contractText (ownProps (snd (parseZ contractAnalysisSchema [] (VObj fs))))
     = VObj (AList.update ''analysisDate'' (VDate (Some now))
               (ownProps (snd (parseZ contractAnalysisSchema [] (VObj fs)))))"
  unfolding contractAnalysisSchema_def parseZ_obj
  by (simp add: analysisRecord_def spread_def)

text \<open>
  C7, as amended. Checking an accepted record against the schema again accepts it and
  returns it unchanged. Building the record of \<open>analyzeContract\<close> from an accepted record
  keeps every property, \<open>id\<close> included, except \<open>analysisDate\<close>, which is set to the
  current time; the result is accepted again.
\<close>

theorem revalidation_restamps_date:
  assumes "safeParse contractAnalysisSchema c = Inr r"
  shows "safeParse contractAnalysisSchema r = Inr r
       \<and> safeParse contractAnalysisSchema (analysisRecord uuid now title contractText (ownProps r))
           = Inr (VObj (AList.update ''analysisDate'' (VDate (Some now)) (ownProps r)))"
proof
  show "safeParse contractAnalysisSchema r = Inr r"
    using assms by (rule safeParse_idem)
next
  from assms have acc: "fst (parseZ contractAnalysisSchema [] c) = []"
    and r: "r = snd (parseZ contractAnalysisSchema [] c)"
    by (simp_all add: safeParse_Inr)
  from acc obtain fs where c: "c = VObj fs"
    unfolding contractAnalysisSchema_def using parseZ_obj_shape by blast
  let ?r' = "VObj (AList.update ''analysisDate'' (VDate (Some now)) (ownProps r))"
  let ?c' = "VObj (AList.update ''analysisDate'' (VDate (Some now)) fs)"
  have p: "parseZ contractAnalysisSchema [] ?c' = ([], ?r')"
    using restamped [OF acc [unfolded c]] by (simp add: r c)
  then have "parseZ contractAnalysisSchema [] ?r' = ([], ?r')"
    using parseZ_idem [OF wf_contractAnalysisSchema, of "[]" ?c' "[]"] by simp
  moreover have "analysisRecord uuid now title contractText (ownProps r) = ?r'"
    unfolding r c by (rule rebuilt)
  ultimately show "safeParse contractAnalysisSchema (analysisRecord uuid now title contractText (ownProps r))
           = Inr ?r'"
    by (simp add: safeParse_Inr)
qed

theorem revalidation_restamps_date_witness:
  "safeParse contractAnalysisSchema (analysisRecord ''u1'' 1000 ''Loan'' exampleText okResponse)
     = Inr (analysisRecord ''u1'' 1000 ''Loan'' exampleText okResponse)
   \<and> safeParse contractAnalysisSchema
        (analysisRecord ''u2'' 2000 ''Other'' ''other text''
           (ownProps (analysisRecord ''u1'' 1000 ''Loan'' exampleText okResponse)))
       = Inr (VObj (AList.update ''analysisDate'' (VDate (Some 2000))
                      (ownProps (analysisRecord ''u1'' 1000 ''Loan'' exampleText okResponse))))"
proof -
  have 1: "safeParse contractAnalysisSchema (analysisRecord ''u1'' 1000 ''Loan'' exampleText okResponse)
     = Inr (analysisRecord ''u1'' 1000 ''Loan'' exampleText okResponse)"
    by code_simp
  from revalidation_restamps_date [OF 1, of "''u2''" 2000 "''Other''" "''other text''"] 1
  show ?thesis by blast
qed

text \<open>
  The claim as worded fails: a record accepted at time 1000 and built again at time 2000
  is accepted with a different \<open>analysisDate\<close>.
\<close>

theorem revalidation_counterexample:
  "safeParse contractAnalysisSchema (analysisRecord ''u1'' 1000 ''Loan'' exampleText okResponse)
     = Inr (analysisRecord ''u1'' 1000 ''Loan'' exampleText okResponse)
   \<and> safeParse contractAnalysisSchema
        (analysisRecord ''u2'' 2000 ''Loan'' exampleText
           (ownProps (analysisRecord ''u1'' 1000 ''Loan'' exampleText okResponse)))
       = Inr (analysisRecord ''u1'' 2000 ''Loan'' exampleText okResponse)
   \<and> analysisRecord ''u1'' 2000 ''Loan'' exampleText okResponse
        \<noteq> analysisRecord ''u1'' 1000 ''Loan'' exampleText okResponse
   \<and> getProp (analysisRecord ''u1'' 1000 ''Loan'' exampleText okResponse) ''analysisDate'' = VDate (Some 1000)
   \<and> getProp (analysisRecord ''u1'' 2000 ''Loan'' exampleText okResponse) ''analysisDate'' = VDate (Some 2000)"
  by code_simp

lemma analysisRecord_date:
  "getProp (analysisRecord uuid now title contractText analysisData) ''analysisDate'' = VDate (Some now)"
  by (simp add: analysisRecord_def propOf_update)

lemma analysisRecord_id:
  "getProp (analysisRecord uuid now title contractText analysisData) ''id''
     = (case map_of (rev analysisData) ''id'' of Some v \<Rightarrow> v | None \<Rightarrow> VStr uuid)"
  by (simp add: analysisRecord_def propOf_update propOf_spread) (simp add: propOf_def split: option.split)

text \<open>
  C9, as amended. When the record built by \<open>analyzeContract\<close> is accepted, its
  \<open>analysisDate\<close> is the current time, whether or not the response had an
  \<open>analysisDate\<close>; its \<open>id\<close> is the fresh identifier when the response has no \<open>id\<close>,
  and the \<open>id\<close> of the response when it has one.
\<close>

theorem analysisRecord_stamping:
  assumes "safeParse contractAnalysisSchema
             (analysisRecord uuid now title contractText analysisData) = Inr r"
  shows "getProp r ''analysisDate'' = VDate (Some now)
       \<and> (''id'' \<notin> fst ` set analysisData \<longrightarrow> getProp r ''id'' = VStr uuid)
       \<and> (distinct (map fst analysisData) \<and> (''id'', v) \<in> set analysisData \<longrightarrow> getProp r ''id'' = v)"
proof -
  let ?rec = "analysisRecord uuid now title contractText analysisData"
  from assms have acc: "fst (parseZ contractAnalysisSchema [] ?rec) = []"
    and r: "r = snd (parseZ contractAnalysisSchema [] ?rec)"
    by (simp_all add: safeParse_Inr)
  note top = accepted_field [OF acc [unfolded contractAnalysisSchema_def]]
  note out = output_field [OF acc [unfolded contractAnalysisSchema_def], folded contractAnalysisSchema_def]
  have "getProp r ''analysisDate'' = snd (parseZ ZDate ([] @ [Key ''analysisDate'']) (getProp ?rec ''analysisDate''))"
    unfolding r by (rule out) simp_all
  then have d: "getProp r ''analysisDate'' = VDate (Some now)"
    by (simp add: analysisRecord_date parseZ_date)
  have "fst (parseZ ZString ([] @ [Key ''id'']) (getProp ?rec ''id'')) = []"
    by (rule top) simp
  moreover have "getProp r ''id'' = snd (parseZ ZString ([] @ [Key ''id'']) (getProp ?rec ''id''))"
    unfolding r by (rule out) simp_all
  ultimately have i: "getProp r ''id'' = getProp ?rec ''id''"
    by (simp add: string_output)
  have a: "getProp r ''id'' = VStr uuid" if "''id'' \<notin> fst ` set analysisData"
  proof -
    from that have "map_of (rev analysisData) ''id'' = None"
      by (simp add: map_of_eq_None_iff)
    then show ?thesis
      by (simp add: i analysisRecord_id)
  qed
  have b: "getProp r ''id'' = v" if "distinct (map fst analysisData)" "(''id'', v) \<in> set analysisData"
  proof -
    from that have "map_of (rev analysisData) ''id'' = Some v"
      by (intro map_of_is_SomeI) (simp_all add: rev_map [symmetric])
    then show ?thesis
      by (simp add: i analysisRecord_id)
  qed
  from d a b show ?thesis by blast
qed

theorem analysisRecord_stamping_witness:
  "safeParse contractAnalysisSchema (analysisRecord ''u1'' 1000 ''Loan'' exampleText stampedResponse)
     = Inr (analysisRecord ''model-id'' 1000 ''Loan'' exampleText okResponse)
   \<and> distinct (map fst stampedResponse)
   \<and> (''id'', VStr ''model-id'') \<in> set stampedResponse
   \<and> getProp (analysisRecord ''model-id'' 1000 ''Loan'' exampleText okResponse) ''id'' = VStr ''model-id''
   \<and> getProp (analysisRecord ''model-id'' 1000 ''Loan'' exampleText okResponse) ''analysisDate''
        = VDate (Some 1000)
   \<and> safeParse contractAnalysisSchema (analysisRecord ''u1'' 1000 ''Loan'' exampleText okResponse)
        = Inr (analysisRecord ''u1'' 1000 ''Loan'' exampleText okResponse)
   \<and> ''id'' \<notin> fst ` set okResponse
   \<and> getProp (analysisRecord ''u1'' 1000 ''Loan'' exampleText okResponse) ''id'' = VStr ''u1''"
proof -
  have 1: "safeParse contractAnalysisSchema (analysisRecord ''u1'' 1000 ''Loan'' exampleText stampedResponse)
     = Inr (analysisRecord ''model-id'' 1000 ''Loan'' exampleText okResponse)"
    by code_simp
  have 2: "distinct (map fst stampedResponse)"
    by code_simp
  have 3: "(''id'', VStr ''model-id'') \<in> set stampedResponse"
    by (simp add: stampedResponse_def)
  have 4: "safeParse contractAnalysisSchema (analysisRecord ''u1'' 1000 ''Loan'' exampleText okResponse)
        = Inr (analysisRecord ''u1'' 1000 ''Loan'' exampleText okResponse)"
    by code_simp
  have 5: "''id'' \<notin> fst ` set okResponse"
    by (simp add: okResponse_def exampleResponse_def)
  from analysisRecord_stamping [OF 1, of "VStr ''model-id''"] 2 3
  have a: "getProp (analysisRecord ''model-id'' 1000 ''Loan'' exampleText okResponse) ''id'' = VStr ''model-id''
     \<and> getProp (analysisRecord ''model-id'' 1000 ''Loan'' exampleText okResponse) ''analysisDate''
        = VDate (Some 1000)"
    by blast
  from analysisRecord_stamping [OF 4] 5
  have b: "getProp (analysisRecord ''u1'' 1000 ''Loan'' exampleText okResponse) ''id'' = VStr ''u1''"
    by blast
  from 1 2 3 4 5 a b show ?thesis by blast
qed

text \<open>
  The claim as worded fails: the \<open>analysisDate\<close> a response carries is not kept. The
  \<open>id\<close> of the response is.
\<close>

theorem stamping_counterexample:
  "getProp (VObj stampedResponse) ''id'' = VStr ''model-id''
   \<and> getProp (VObj stampedResponse) ''analysisDate'' = VStr ''2020-01-01T00:00:00.000Z''
   \<and> safeParse contractAnalysisSchema (analysisRecord ''u1'' 1000 ''Loan'' exampleText stampedResponse)
       = Inr (analysisRecord ''model-id'' 1000 ''Loan'' exampleText okResponse)
   \<and> getProp (analysisRecord ''model-id'' 1000 ''Loan'' exampleText okResponse) ''id'' = VStr ''model-id''
   \<and> getProp (analysisRecord ''model-id'' 1000 ''Loan'' exampleText okResponse) ''analysisDate''
       = VDate (Some 1000)
   \<and> VDate (Some 1000) \<noteq> VStr ''2020-01-01T00:00:00.000Z''"
  by code_simp

section \<open>Storing and reading back\<close>

lemma exampleAnalysis_is_record:
  "analysisJs (exampleAnalysis aid) = analysisRecord aid 1000 ''Loan'' exampleText okResponse"
  by (simp add: exampleAnalysis_def analysisRecord_def okResponse_def exampleResponse_def
        exampleClause_def exampleBreakdown_def spread_def)

lemma stringify_analysis:
  "\<exists>j. JSON_stringify toISOString (analysisJs a) = Some (JObject j)"
  by (cases a) simp

lemma stringify_breakdown:
  "\<exists>j. JSON_stringify toISOString (riskBreakdownJs b) = Some j"
  by (cases b) simp

lemma stringify_ids:
  "JSON_stringify toISOString (VArr (map VStr ids)) = Some (JArray (map JString ids))"
  by (simp add: comp_def)

lemma parse_ids: "JSON_parse (JArray (map JString ids)) = VArr (map VStr ids)"
  by (simp add: comp_def)

lemma filter_ids:
  "filter (\<lambda>i. i \<noteq> VStr x) (map VStr ids) = map VStr (filter (\<lambda>i. i \<noteq> x) ids)"
  by (induction ids) simp_all

lemma recent_ids:
  assumes "distinct ids"
  shows "hd (take 10 (x # filter (\<lambda>i. i \<noteq> x) ids)) = x
       \<and> distinct (take 10 (x # filter (\<lambda>i. i \<noteq> x) ids))
       \<and> length (take 10 (x # filter (\<lambda>i. i \<noteq> x) ids)) \<le> 10"
proof -
  have "distinct (x # filter (\<lambda>i. i \<noteq> x) ids)"
    using assms by simp
  then have "distinct (take 10 (x # filter (\<lambda>i. i \<noteq> x) ids))"
    by (rule distinct_take)
  moreover have "hd (take 10 (x # filter (\<lambda>i. i \<noteq> x) ids)) = x"
    by (simp add: take_Cons')
  ultimately show ?thesis by simp
qed

text \<open>
  After \<open>storeAnalysis\<close> the analysis is stored under its key, also when the call throws.
\<close>

lemma stored_item:
  "getItem (snd (storeAnalysis toISOString a ls)) (''analysis-'' @ analysis_id a)
     = Some (stringifyText toISOString (analysisJs a))"
proof (cases "analysis_id a = ''ids''")
  case True
  obtain j where "JSON_stringify toISOString (analysisJs a) = Some (JObject j)"
    using stringify_analysis by blast
  with True show ?thesis
    by (simp add: storeAnalysis_def getItem_def setItem_def stringifyText_def Let_def)
next
  case False
  then show ?thesis
    by (auto simp: storeAnalysis_def getItem_def setItem_def Let_def
             split: sum.split jsval.split)
qed

text \<open>
  Whatever the record, the \<open>analysisDate\<close> read back is not a date, and the schema
  rejects a record whose \<open>analysisDate\<close> is a string.
\<close>

lemma round_trip_date:
  "\<exists>j. JSON_stringify toISOString (analysisJs a) = Some j
       \<and> (\<forall>d. getProp (JSON_parse j) ''analysisDate'' \<noteq> VDate d)"
proof (cases a)
  case (ContractAnalysis aid title content riskScore clauses keyIssues missingProtections
          riskBreakdown plainLanguageSummary confidence analysisDate)
  obtain jb where jb: "JSON_stringify toISOString (riskBreakdownJs riskBreakdown) = Some jb"
    using stringify_breakdown by blast
  show ?thesis
    unfolding ContractAnalysis
    by (simp add: jb spread_def propOf_def split: option.split)
qed

lemma stored_analysis_never_date:
  assumes "analysis_id a \<noteq> []"
  shows "\<exists>stored. useStoredAnalysis (Some (analysis_id a)) (snd (storeAnalysis toISOString a ls)) = Inr stored
            \<and> (\<forall>d. getProp stored ''analysisDate'' \<noteq> VDate d)
            \<and> stored \<noteq> analysisJs a"
proof -
  obtain j where j: "JSON_stringify toISOString (analysisJs a) = Some j"
    and d: "\<forall>d. getProp (JSON_parse j) ''analysisDate'' \<noteq> VDate d"
    using round_trip_date by blast
  have "useStoredAnalysis (Some (analysis_id a)) (snd (storeAnalysis toISOString a ls)) = Inr (JSON_parse j)"
    using assms stored_item [of toISOString a ls] j
    by (simp add: useStoredAnalysis_def stringifyText_def)
  moreover have "getProp (analysisJs a) ''analysisDate'' = VDate (case a of ContractAnalysis _ _ _ _ _ _ _ _ _ _ t \<Rightarrow> t)"
    by (cases a) (simp add: propOf_def)
  ultimately show ?thesis
    using d by metis
qed

lemma round_tripped_rejected:
  "isl (safeParse contractAnalysisSchema
          (VObj (AList.update ''analysisDate'' (VStr s) fs)))"
proof -
  have "fst (parseZ ZDate ([] @ [Key ''analysisDate''])
               (propOf (AList.update ''analysisDate'' (VStr s) fs) ''analysisDate''))
          = [([Key ''analysisDate''], invalid_type)]"
    by (simp add: propOf_update parseZ.simps)
  moreover have "set (fst (parseZ ZDate ([] @ [Key ''analysisDate''])
               (propOf (AList.update ''analysisDate'' (VStr s) fs) ''analysisDate'')))
          \<subseteq> set (fst (parseZ contractAnalysisSchema []
                 (VObj (AList.update ''analysisDate'' (VStr s) fs))))"
    unfolding contractAnalysisSchema_def by (rule parseZ_obj_issues) simp
  ultimately have "fst (parseZ contractAnalysisSchema []
                 (VObj (AList.update ''analysisDate'' (VStr s) fs))) \<noteq> []"
    by auto
  then show ?thesis
    by (cases "parseZ contractAnalysisSchema [] (VObj (AList.update ''analysisDate'' (VStr s) fs))";
        cases "fst (parseZ contractAnalysisSchema [] (VObj (AList.update ''analysisDate'' (VStr s) fs)))")
       (auto simp: safeParse_def)
qed

text \<open>
  C8. The claim is that a stored record is read back equal in every field. It fails at
  the example record: the record satisfies the schema and is dated by a \<open>Date\<close>; what
  \<open>useStoredAnalysis\<close> returns after \<open>storeAnalysis\<close> has the string of
  \<open>toISOString\<close> as its \<open>analysisDate\<close> and differs from the record.
\<close>

theorem stored_analysis_date_is_text:
  "safeParse contractAnalysisSchema (analysisJs (exampleAnalysis ''u1'')) = Inr (analysisJs (exampleAnalysis ''u1''))
   \<and> getProp (analysisJs (exampleAnalysis ''u1'')) ''analysisDate'' = VDate (Some 1000)
   \<and> useStoredAnalysis (Some ''u1'')
         (snd (storeAnalysis toISOString (exampleAnalysis ''u1'') emptyStorage))
       = Inr (VObj (AList.update ''analysisDate'' (VStr (toISOString 1000))
                      (ownProps (analysisJs (exampleAnalysis ''u1'')))))
   \<and> VObj (AList.update ''analysisDate'' (VStr (toISOString 1000))
                      (ownProps (analysisJs (exampleAnalysis ''u1''))))
        \<noteq> analysisJs (exampleAnalysis ''u1'')
   \<and> isl (safeParse contractAnalysisSchema
             (VObj (AList.update ''analysisDate'' (VStr (toISOString 1000))
                      (ownProps (analysisJs (exampleAnalysis ''u1''))))))"
proof -
  have 1: "safeParse contractAnalysisSchema (analysisJs (exampleAnalysis ''u1'')) = Inr (analysisJs (exampleAnalysis ''u1''))"
    by code_simp
  have 2: "useStoredAnalysis (Some ''u1'')
         (snd (storeAnalysis toISOString (exampleAnalysis ''u1'') emptyStorage))
       = Inr (VObj (AList.update ''analysisDate'' (VStr (toISOString 1000))
                      (ownProps (analysisJs (exampleAnalysis ''u1'')))))"
    by (simp add: storeAnalysis_def useStoredAnalysis_def exampleAnalysis_def emptyStorage_def
        getItem_def setItem_def stringifyText_def spread_def Let_def)
  have 3: "getProp (analysisJs (exampleAnalysis ''u1'')) ''analysisDate'' = VDate (Some 1000)"
    by (simp add: exampleAnalysis_def propOf_def)
  have 4: "VObj (AList.update ''analysisDate'' (VStr (toISOString 1000))
                      (ownProps (analysisJs (exampleAnalysis ''u1''))))
        \<noteq> analysisJs (exampleAnalysis ''u1'')"
    by (simp add: exampleAnalysis_def)
  from 1 2 3 4 round_tripped_rejected show ?thesis by blast
qed

text \<open>
  With an identifier other than \<open>ids\<close>, and a stored list of distinct identifiers (or
  none), \<open>storeAnalysis\<close> returns and leaves a list that starts with the identifier of
  the analysis, has no duplicates and at most ten elements.
\<close>

lemma storeAnalysis_recent_ids:
  assumes "analysis_id a \<noteq> ''ids''"
    and "orElse (getItem ls ''analysis-ids'') (JsonText (JArray [])) = JsonText (JArray (map JString ids))"
    and "distinct ids"
  shows "\<exists>ids'. storeAnalysis toISOString a ls =
                   (None, setItem ''analysis-ids'' (JsonText (JArray (map JString ids')))
                            (setItem (''analysis-'' @ analysis_id a)
                               (stringifyText toISOString (analysisJs a)) ls))
           \<and> useAnalysisList (snd (storeAnalysis toISOString a ls)) = Inr (VArr (map VStr ids'))
           \<and> hd ids' = analysis_id a \<and> distinct ids' \<and> length ids' \<le> 10"
proof -
  let ?ids' = "take 10 (analysis_id a # filter (\<lambda>i. i \<noteq> analysis_id a) ids)"
  let ?ls1 = "setItem (''analysis-'' @ analysis_id a) (stringifyText toISOString (analysisJs a)) ls"
  from assms(1) have "getItem ?ls1 ''analysis-ids'' = getItem ls ''analysis-ids''"
    by (simp add: getItem_def setItem_def)
  with assms(2) have "parseText (orElse (getItem ?ls1 ''analysis-ids'') (JsonText (JArray [])))
                        = Inr (VArr (map VStr ids))"
    by (simp add: comp_def)
  moreover have "stringifyText toISOString
                   (VArr (take 10 (VStr (analysis_id a)
                      # filter (\<lambda>i. i \<noteq> VStr (analysis_id a)) (map VStr ids))))
                   = JsonText (JArray (map JString ?ids'))"
    using stringify_ids [of toISOString ?ids']
    by (simp add: stringifyText_def filter_ids take_map)
  ultimately have s: "storeAnalysis toISOString a ls =
                   (None, setItem ''analysis-ids'' (JsonText (JArray (map JString ?ids'))) ?ls1)"
    by (simp add: storeAnalysis_def Let_def)
  then have "useAnalysisList (snd (storeAnalysis toISOString a ls)) = Inr (VArr (map VStr ?ids'))"
    by (simp add: useAnalysisList_def getItem_def setItem_def comp_def)
  with s recent_ids [OF assms(3), of "analysis_id a"] show ?thesis
    by blast
qed

text \<open>
  C10. The claim is that after every call the stored list starts with the identifier of
  the analysis, has no duplicates and at most ten elements. It fails for the identifier
  \<open>ids\<close>, whose key \<open>analysis-ids\<close> is the key of the list: the analysis is written
  over the list, \<open>filter\<close> is called on an object and throws, the key holds the analysis
  and not a list, and the next call with another identifier throws as well.
\<close>

theorem storeAnalysis_key_collision:
  "fst (storeAnalysis toISOString (exampleAnalysis ''ids'') emptyStorage) = Some TypeError
   \<and> useAnalysisList (snd (storeAnalysis toISOString (exampleAnalysis ''ids'') emptyStorage))
       = Inr (VObj (AList.update ''analysisDate'' (VStr (toISOString 1000))
                      (ownProps (analysisJs (exampleAnalysis ''ids'')))))
   \<and> fst (storeAnalysis toISOString (exampleAnalysis ''u2'')
            (snd (storeAnalysis toISOString (exampleAnalysis ''ids'') emptyStorage))) = Some TypeError"
  by (simp add: storeAnalysis_def useAnalysisList_def exampleAnalysis_def emptyStorage_def
        getItem_def setItem_def stringifyText_def spread_def Let_def)

end
